theory Spec2Isabelle
  imports Main
begin

section \<open>Values, exceptions and string helpers\<close>

text \<open>
  The module \<^verbatim>\<open>vsgenptvs/interpreter.py\<close> is effectful Python: it reads the file
  system, spawns child processes, and reads and writes the Windows registry. The
  embedding makes each effect explicit. A Python call that may raise returns a sum:
  \<open>Inl e\<close> is the raised exception, \<open>Inr v\<close> the returned value.
\<close>

datatype exn =
    ValueError string
  | WindowsError
  | IOError
  | UnboundLocalError
  | TypeError
  | AttributeError
  | OtherError nat

text \<open>
  An identity is either a \<^verbatim>\<open>uuid.UUID\<close> object (given by its integer) or a plain string:
  \<^verbatim>\<open>from_registry_key\<close> stores the string cut out of the key name.
\<close>

datatype guid = UUID nat | GuidStr string

definition bslash :: char where
  "bslash = CHR 0x5C"

definition squote :: char where
  "squote = CHR 0x27"

text \<open>
  Text is a list of characters with code points below 256. Whitespace as \<^verbatim>\<open>str.strip\<close>
  and \<^verbatim>\<open>str.rstrip\<close> see it there: the ASCII blanks and separators, NEXT LINE (0x85) and
  NO-BREAK SPACE (0xA0).
\<close>

definition isspace :: "char \<Rightarrow> bool" where
  "isspace c \<longleftrightarrow> c \<in> set [CHR 0x20, CHR 0x09, CHR 0x0A, CHR 0x0B, CHR 0x0C, CHR 0x0D,
                           CHR 0x1C, CHR 0x1D, CHR 0x1E, CHR 0x1F, CHR 0x85, CHR 0xA0]"

definition lstrip :: "string \<Rightarrow> string" where
  "lstrip s = dropWhile isspace s"

definition rstrip :: "string \<Rightarrow> string" where
  "rstrip s = rev (dropWhile isspace (rev s))"

definition strip :: "string \<Rightarrow> string" where
  "strip s = rstrip (lstrip s)"

text \<open>
  \<^verbatim>\<open>str.lower\<close> on code points below 256: the letters A to Z and the capital letters of
  Latin-1 (0xC0 to 0xDE without the multiplication sign 0xD7) move up by 32.
\<close>

definition lower_char :: "char \<Rightarrow> char" where
  "lower_char c =
     (let n = (of_char c :: nat)
      in if (65 \<le> n \<and> n \<le> 90) \<or> (192 \<le> n \<and> n \<le> 222 \<and> n \<noteq> 215)
         then char_of (n + 32) else c)"

definition lower :: "string \<Rightarrow> string" where
  "lower s = map lower_char s"

text \<open>
  \<^verbatim>\<open>key, _, value = line.partition('=')\<close>: the text before the first \<^verbatim>\<open>=\<close> and the text
  after it. The source calls it only when \<^verbatim>\<open>'=' in line\<close>.
\<close>

definition partition_eq :: "string \<Rightarrow> string \<times> string" where
  "partition_eq line =
     (takeWhile (\<lambda>c. c \<noteq> CHR ''='') line, drop 1 (dropWhile (\<lambda>c. c \<noteq> CHR ''='') line))"

text \<open>\<^verbatim>\<open>', '.join(xs)\<close>\<close>

fun join_comma :: "string list \<Rightarrow> string" where
  "join_comma [] = []"
| "join_comma [x] = x"
| "join_comma (x # y # ys) = x @ '', '' @ join_comma (y # ys)"

text \<open>Truthiness of a value that is \<^verbatim>\<open>None\<close> or a string: \<^verbatim>\<open>if version:\<close>, \<^verbatim>\<open>if not self.VSVersion:\<close>.\<close>

definition truthy :: "string option \<Rightarrow> bool" where
  "truthy v = (case v of None \<Rightarrow> False | Some s \<Rightarrow> s \<noteq> [])"

section \<open>The environment of the program\<close>

text \<open>
  Registry operations of \<^verbatim>\<open>winreg\<close>, each on a key of \<^verbatim>\<open>HKEY_CURRENT_USER\<close> named by its
  path; a fault oracle of the environment says which of them fail with \<^verbatim>\<open>WindowsError\<close>
  for a reason other than a missing key or value (access denied, unreadable hive).
\<close>

datatype regop =
    OpOpenKey string
  | OpCreateKey string
  | OpQueryInfoKey string
  | OpEnumKey string nat
  | OpQueryValueEx string string
  | OpSetValueEx string string

text \<open>
  Everything the module takes from outside itself, as one record: the functions of
  \<^verbatim>\<open>os.path\<close> (\<^verbatim>\<open>ntpath\<close> on Windows), the contents of text files, the outcome of running a
  child process, \<^verbatim>\<open>bytes.decode("utf-8")\<close>, the parser of \<^verbatim>\<open>uuid.UUID(hex)\<close>, the helpers
  \<^verbatim>\<open>text\<close> and \<^verbatim>\<open>lower\<close> inherited from \<^verbatim>\<open>vsgen.register.VSGRegisterable\<close>, the registry's
  fault oracle, and whether the builtin \<^verbatim>\<open>filter\<close> returns an iterator (Python 3) or a
  list (Python 2; the module imports \<^verbatim>\<open>_winreg\<close> when \<^verbatim>\<open>winreg\<close> is missing).
\<close>

record env =
  py3 :: bool
  abspath :: "string \<Rightarrow> string"
  join :: "string \<Rightarrow> string list \<Rightarrow> string"
  isabs :: "string \<Rightarrow> bool"
  basename :: "string \<Rightarrow> string"
  dirname :: "string \<Rightarrow> string"
  exists :: "string \<Rightarrow> bool"
  file_lines :: "string \<Rightarrow> string list option"
  popen_communicate :: "string list \<Rightarrow> exn + (string \<times> string)"
  decode_utf8 :: "string \<Rightarrow> exn + string"
  uuid_parse :: "string \<Rightarrow> nat option"
  vsg_text :: "string \<Rightarrow> string"
  vsg_lower :: "guid \<Rightarrow> string"
  reg_fault :: "regop \<Rightarrow> bool"

section \<open>Probe\<close>

text \<open>
  \<^verbatim>\<open>try: body except BaseException: return None\<close>. \<^verbatim>\<open>BaseException\<close> is the root of the
  exception hierarchy, so the handler takes every exception.
\<close>

definition except_BaseException :: "exn + 'a \<Rightarrow> 'a option \<Rightarrow> exn + 'a option" where
  "except_BaseException body handler =
     (case body of Inl e \<Rightarrow> Inr handler | Inr v \<Rightarrow> Inr (Some v))"

definition architecture_script :: string where
  "architecture_script =
     ''import platform;print('' @ [squote] @ ''x64'' @ [squote] @ '' if '' @ [squote] @ ''64bit''
       @ [squote] @ '' in platform.architecture() else '' @ [squote] @ ''x86'' @ [squote] @ '')''"

definition version_script :: string where
  "version_script =
     ''import sys;print '' @ [squote] @ ''.'' @ [squote]
       @ ''.join(str(s) for s in sys.version_info[:2])''"

text \<open>
  The body of both probes: \<^verbatim>\<open>out, err = subprocess.Popen([...]).communicate()\<close> and
  \<^verbatim>\<open>return out.decode("utf-8").rstrip()\<close>.
\<close>

definition probe_body :: "env \<Rightarrow> string \<Rightarrow> string \<Rightarrow> exn + string" where
  "probe_body E interpreter script =
     (case popen_communicate E [interpreter, ''-c'', script] of
        Inl e \<Rightarrow> Inl e
      | Inr (out, err) \<Rightarrow>
          (case decode_utf8 E out of
             Inl e \<Rightarrow> Inl e
           | Inr text \<Rightarrow> Inr (rstrip text)))"

definition python_architecture :: "env \<Rightarrow> string \<Rightarrow> exn + string option" where
  "python_architecture E interpreter =
     except_BaseException (probe_body E interpreter architecture_script) None"

definition python_version :: "env \<Rightarrow> string \<Rightarrow> exn + string option" where
  "python_version E interpreter =
     except_BaseException (probe_body E interpreter version_script) None"

section \<open>The interpreter descriptor\<close>

record PTVSInterpreter =
  GUID :: guid
  BaseInterpreter :: guid
  Architecture :: string
  Version :: string
  Path :: string
  Description :: string
  InterpreterPath :: string
  InterpreterAbsPath :: string
  WindowsInterpreterPath :: string
  WindowsInterpreterAbsPath :: string
  PathEnvironmentVariable :: string
  VSVersion :: "string option"

text \<open>
  The keyword dictionary that the factories pass on to the constructor, as a record of
  the keys \<^verbatim>\<open>_import\<close> reads; \<open>None\<close> is a key that is not in the dictionary. The value
  of \<^verbatim>\<open>VSVersion\<close> is held as the text that \<^verbatim>\<open>str.format\<close> makes of it.
\<close>

record kwargs =
  kw_Id :: "guid option"
  kw_BaseInterpreter :: "guid option"
  kw_Architecture :: "string option"
  kw_Version :: "string option"
  kw_Path :: "string option"
  kw_Description :: "string option"
  kw_InterpreterPath :: "string option"
  kw_InterpreterAbsPath :: "string option"
  kw_WindowsInterpreterPath :: "string option"
  kw_WindowsInterpreterAbsPath :: "string option"
  kw_PathEnvironmentVariable :: "string option"
  kw_VSVersion :: "string option"

definition no_kwargs :: kwargs where
  "no_kwargs = \<lparr> kw_Id = None, kw_BaseInterpreter = None, kw_Architecture = None,
     kw_Version = None, kw_Path = None, kw_Description = None, kw_InterpreterPath = None,
     kw_InterpreterAbsPath = None, kw_WindowsInterpreterPath = None,
     kw_WindowsInterpreterAbsPath = None, kw_PathEnvironmentVariable = None,
     kw_VSVersion = None \<rparr>"

text \<open>\<^verbatim>\<open>datadict.get(key, default)\<close>\<close>

definition dict_get :: "'a option \<Rightarrow> 'a \<Rightarrow> 'a" where
  "dict_get v d = (case v of Some x \<Rightarrow> x | None \<Rightarrow> d)"

text \<open>\<^verbatim>\<open>args.setdefault(key, default)\<close>, as the new entry of the key.\<close>

definition setdefault :: "'a option \<Rightarrow> 'a \<Rightarrow> 'a option" where
  "setdefault v d = (case v of Some x \<Rightarrow> Some x | None \<Rightarrow> Some d)"

section \<open>The mutable world: registry and identity generator\<close>

text \<open>
  The registry under \<^verbatim>\<open>HKEY_CURRENT_USER\<close>: the keys that exist, by their full path, in
  the order in which \<^verbatim>\<open>EnumKey\<close> lists them, and the named string values of each key.
  Key and value names are compared exactly. \<open>uuid_clock\<close> numbers the calls of
  \<^verbatim>\<open>uuid.uuid1()\<close>: each call returns a new identity.
\<close>

record world =
  reg_keys :: "string list"
  reg_values :: "string \<Rightarrow> string \<Rightarrow> string option"
  uuid_clock :: nat

definition uuid1 :: "world \<Rightarrow> guid \<times> world" where
  "uuid1 W = (UUID (uuid_clock W), W\<lparr>uuid_clock := Suc (uuid_clock W)\<rparr>)"

text \<open>
  \<^verbatim>\<open>uuid.UUID(hex)\<close>: a string is parsed (\<^verbatim>\<open>ValueError\<close> when it is badly formed); a
  \<^verbatim>\<open>UUID\<close> object has no \<^verbatim>\<open>replace\<close> method.
\<close>

definition uuid_UUID :: "env \<Rightarrow> guid \<Rightarrow> exn + guid" where
  "uuid_UUID E g =
     (case g of
        GuidStr s \<Rightarrow>
          (case uuid_parse E s of
             None \<Rightarrow> Inl (ValueError ''badly formed hexadecimal UUID string'')
           | Some n \<Rightarrow> Inr (UUID n))
      | UUID n \<Rightarrow> Inl AttributeError)"

text \<open>The direct subkeys of a key, by name, in enumeration order.\<close>

definition is_subkey :: "string \<Rightarrow> string \<Rightarrow> bool" where
  "is_subkey k p \<longleftrightarrow>
     take (length k + 1) p = k @ [bslash]
     \<and> drop (length k + 1) p \<noteq> []
     \<and> bslash \<notin> set (drop (length k + 1) p)"

definition subkeys :: "world \<Rightarrow> string \<Rightarrow> string list" where
  "subkeys W k = map (drop (length k + 1)) (filter (is_subkey k) (reg_keys W))"

text \<open>Creating a key creates the missing keys on its path too.\<close>

fun prefixes_at :: "string \<Rightarrow> string \<Rightarrow> string list" where
  "prefixes_at acc [] = [acc]"
| "prefixes_at acc (c # cs) =
     (if c = bslash then acc # prefixes_at (acc @ [c]) cs else prefixes_at (acc @ [c]) cs)"

definition key_chain :: "string \<Rightarrow> string list" where
  "key_chain k = prefixes_at [] k"

definition add_keys :: "string list \<Rightarrow> string list \<Rightarrow> string list" where
  "add_keys ks new = fold (\<lambda>k acc. if k \<in> set acc then acc else acc @ [k]) new ks"

definition OpenKey :: "env \<Rightarrow> world \<Rightarrow> string \<Rightarrow> exn + string" where
  "OpenKey E W k =
     (if reg_fault E (OpOpenKey k) \<or> k \<notin> set (reg_keys W) then Inl WindowsError else Inr k)"

definition CreateKey :: "env \<Rightarrow> world \<Rightarrow> string \<Rightarrow> (exn + string) \<times> world" where
  "CreateKey E W k =
     (if reg_fault E (OpCreateKey k) then (Inl WindowsError, W)
      else (Inr k, W\<lparr>reg_keys := add_keys (reg_keys W) (key_chain k)\<rparr>))"

definition QueryInfoKey :: "env \<Rightarrow> world \<Rightarrow> string \<Rightarrow> exn + nat" where
  "QueryInfoKey E W k =
     (if reg_fault E (OpQueryInfoKey k) then Inl WindowsError else Inr (length (subkeys W k)))"

definition EnumKey :: "env \<Rightarrow> world \<Rightarrow> string \<Rightarrow> nat \<Rightarrow> exn + string" where
  "EnumKey E W k i =
     (if reg_fault E (OpEnumKey k i) \<or> length (subkeys W k) \<le> i then Inl WindowsError
      else Inr (subkeys W k ! i))"

definition QueryValueEx :: "env \<Rightarrow> world \<Rightarrow> string \<Rightarrow> string \<Rightarrow> exn + string" where
  "QueryValueEx E W k name =
     (if reg_fault E (OpQueryValueEx k name) then Inl WindowsError
      else case reg_values W k name of None \<Rightarrow> Inl WindowsError | Some v \<Rightarrow> Inr v)"

definition SetValueEx :: "env \<Rightarrow> world \<Rightarrow> string \<Rightarrow> string \<Rightarrow> string \<Rightarrow> (exn + unit) \<times> world" where
  "SetValueEx E W k name v =
     (if reg_fault E (OpSetValueEx k name) then (Inl WindowsError, W)
      else (Inr (), W\<lparr>reg_values := (reg_values W)(k := (reg_values W k)(name \<mapsto> v))\<rparr>))"

section \<open>Construction\<close>

text \<open>
  \<^verbatim>\<open>_import\<close>, called by \<^verbatim>\<open>__init__\<close>. The default of \<^verbatim>\<open>Id\<close> is an argument of \<^verbatim>\<open>get\<close>, so
  \<^verbatim>\<open>uuid.uuid1()\<close> is called whether or not the dictionary has the key.
\<close>

definition derive_abs :: "env \<Rightarrow> string \<Rightarrow> string \<Rightarrow> string" where
  "derive_abs E path rel = (if isabs E rel then rel else abspath E (join E path [rel]))"

definition PTVSInterpreter_import :: "env \<Rightarrow> world \<Rightarrow> kwargs \<Rightarrow> PTVSInterpreter \<times> world" where
  "PTVSInterpreter_import E W datadict =
     (let (fresh, W1) = uuid1 W;
          guid = dict_get (kw_Id datadict) fresh;
          path = dict_get (kw_Path datadict) [];
          ipath = dict_get (kw_InterpreterPath datadict) [];
          wpath = dict_get (kw_WindowsInterpreterPath datadict) []
      in (\<lparr> GUID = guid,
            BaseInterpreter = dict_get (kw_BaseInterpreter datadict) guid,
            Architecture = dict_get (kw_Architecture datadict) [],
            Version = dict_get (kw_Version datadict) [],
            Path = path,
            Description = dict_get (kw_Description datadict) [],
            InterpreterPath = ipath,
            InterpreterAbsPath =
              dict_get (kw_InterpreterAbsPath datadict) (derive_abs E path ipath),
            WindowsInterpreterPath = wpath,
            WindowsInterpreterAbsPath =
              dict_get (kw_WindowsInterpreterAbsPath datadict) (derive_abs E path wpath),
            PathEnvironmentVariable =
              dict_get (kw_PathEnvironmentVariable datadict) ''PYTHONPATH'',
            VSVersion = kw_VSVersion datadict \<rparr>, W1))"

section \<open>Loading a descriptor from a catalog entry\<close>

text \<open>
  \<^verbatim>\<open>try: body except WindowsError: handler\<close> takes \<^verbatim>\<open>WindowsError\<close> only; any other
  exception goes on to the caller.
\<close>

definition is_WindowsError :: "exn \<Rightarrow> bool" where
  "is_WindowsError e = (case e of WindowsError \<Rightarrow> True | _ \<Rightarrow> False)"

text \<open>
  Modelled from the spec: the header of the loop in \<^verbatim>\<open>from_registry_key\<close>, which the source
  file lacks (its body, \<^verbatim>\<open>args[k] = winreg.QueryValueEx(regkey, k)[0]\<close>, is there). The spec
  names the fields read: architecture, description, interpreter path, version, windowed
  interpreter path, search-path variable name; \<^verbatim>\<open>register\<close> writes them under these names.
\<close>

definition registry_fields :: "string list" where
  "registry_fields = [''Architecture'', ''Description'', ''InterpreterPath'', ''Version'',
     ''WindowsInterpreterPath'', ''PathEnvironmentVariable'']"

text \<open>\<^verbatim>\<open>args[k] = v\<close> for the names of \<open>registry_fields\<close>.\<close>

definition set_arg :: "string \<Rightarrow> string \<Rightarrow> kwargs \<Rightarrow> kwargs" where
  "set_arg k v args =
     (if k = ''Architecture'' then args\<lparr>kw_Architecture := Some v\<rparr>
      else if k = ''Description'' then args\<lparr>kw_Description := Some v\<rparr>
      else if k = ''InterpreterPath'' then args\<lparr>kw_InterpreterPath := Some v\<rparr>
      else if k = ''Version'' then args\<lparr>kw_Version := Some v\<rparr>
      else if k = ''WindowsInterpreterPath'' then args\<lparr>kw_WindowsInterpreterPath := Some v\<rparr>
      else if k = ''PathEnvironmentVariable'' then args\<lparr>kw_PathEnvironmentVariable := Some v\<rparr>
      else args)"

text \<open>
  The loop over the names: the first read that raises ends it, and the entries stored
  before it stay in \<^verbatim>\<open>args\<close>.
\<close>

fun read_fields :: "env \<Rightarrow> world \<Rightarrow> string \<Rightarrow> string list \<Rightarrow> kwargs \<Rightarrow> (exn + unit) \<times> kwargs" where
  "read_fields E W regkey [] args = (Inr (), args)"
| "read_fields E W regkey (k # ks) args =
     (case QueryValueEx E W regkey k of
        Inl e \<Rightarrow> (Inl e, args)
      | Inr v \<Rightarrow> read_fields E W regkey ks (set_arg k v args))"

definition read_entry :: "env \<Rightarrow> world \<Rightarrow> string \<Rightarrow> (exn + unit) \<times> kwargs" where
  "read_entry E W keyname =
     (case OpenKey E W keyname of
        Inl e \<Rightarrow> (Inl e, no_kwargs)
      | Inr regkey \<Rightarrow> read_fields E W regkey registry_fields no_kwargs)"

text \<open>\<^verbatim>\<open>s[1:-1]\<close>\<close>

definition slice_1_m1 :: "string \<Rightarrow> string" where
  "slice_1_m1 s = butlast (tl s)"

text \<open>Lines 216 to 220: what follows the \<^verbatim>\<open>try\<close> statement.\<close>

definition descriptor_of_args ::
  "env \<Rightarrow> world \<Rightarrow> string \<Rightarrow> kwargs \<Rightarrow> PTVSInterpreter option \<times> world" where
  "descriptor_of_args E W keyname args =
     (case kw_InterpreterPath args of
        Some ip \<Rightarrow>
          (case PTVSInterpreter_import E W
                  (args\<lparr>kw_Path := Some (dirname E ip),
                        kw_Id := Some (GuidStr (slice_1_m1 (basename E keyname)))\<rparr>) of
             (i, W1) \<Rightarrow> (Some i, W1))
      | None \<Rightarrow> (None, W))"

definition from_registry_key ::
  "env \<Rightarrow> world \<Rightarrow> string \<Rightarrow> (exn + PTVSInterpreter option) \<times> world" where
  "from_registry_key E W keyname =
     (case read_entry E W keyname of
        (Inl e, args) \<Rightarrow>
          (if is_WindowsError e then
             (case descriptor_of_args E W keyname args of (r, W1) \<Rightarrow> (Inr r, W1))
           else (Inl e, W))
      | (Inr u, args) \<Rightarrow>
          (case descriptor_of_args E W keyname args of (r, W1) \<Rightarrow> (Inr r, W1)))"

section \<open>Reconcile and register\<close>

text \<open>
  \<^verbatim>\<open>_regkey_name.format(VSVersion=self.VSVersion)\<close>, with the class attribute
  \<^verbatim>\<open>r'Software\Microsoft\VisualStudio\{VSVersion}\PythonTools\Interpreters'\<close>.
\<close>

definition regkey_name_of :: "string \<Rightarrow> string" where
  "regkey_name_of v =
     ''Software'' @ [bslash] @ ''Microsoft'' @ [bslash] @ ''VisualStudio'' @ [bslash] @ v
       @ [bslash] @ ''PythonTools'' @ [bslash] @ ''Interpreters''"

definition resolve_no_version :: exn where
  "resolve_no_version =
     ValueError ''Cannot resolve interpreter with invalid Visual Studio Version''"

definition resolve_not_installed :: "env \<Rightarrow> string \<Rightarrow> exn" where
  "resolve_not_installed E v =
     ValueError (''Cannot resolve the registry path HKCU'' @ [bslash]
       @ dirname E (regkey_name_of v) @ '' for Visual Studio '' @ vsg_text E v
       @ [squote] @ ''s PTVS.  Is PTVS installed?'')"

definition register_no_version :: exn where
  "register_no_version =
     ValueError ''Cannot register interpreter with invalid Visual Studio Version''"

definition register_not_installed :: "env \<Rightarrow> string \<Rightarrow> exn" where
  "register_not_installed E v =
     ValueError (''Cannot register interpreter with Visual Studio '' @ vsg_text E v
       @ '' that is not installed.'')"

text \<open>
  The body of \<^verbatim>\<open>for i in range(reginfo[0])\<close> in \<^verbatim>\<open>resolve\<close>, over the indices still to
  visit. The descriptor is changed only on a match, right before \<^verbatim>\<open>break\<close>.
\<close>

fun resolve_loop ::
  "env \<Rightarrow> world \<Rightarrow> string \<Rightarrow> PTVSInterpreter \<Rightarrow> nat list \<Rightarrow> (exn + PTVSInterpreter) \<times> world" where
  "resolve_loop E W regkey_name self [] = (Inr self, W)"
| "resolve_loop E W regkey_name self (i # rest) =
     (case EnumKey E W regkey_name i of
        Inl e \<Rightarrow> (Inl e, W)
      | Inr name \<Rightarrow>
          (case from_registry_key E W (regkey_name @ [bslash] @ name) of
             (Inl e, W1) \<Rightarrow> (Inl e, W1)
           | (Inr None, W1) \<Rightarrow> resolve_loop E W1 regkey_name self rest
           | (Inr (Some interpreter), W1) \<Rightarrow>
               (if lower (InterpreterAbsPath interpreter) = lower (InterpreterAbsPath self)
                then (case uuid_UUID E (GUID interpreter) of
                        Inl e \<Rightarrow> (Inl e, W1)
                      | Inr g \<Rightarrow> (Inr (self\<lparr>GUID := g, BaseInterpreter := g\<rparr>), W1))
                else resolve_loop E W1 regkey_name self rest)))"

text \<open>Lines 259 to 266: the body of the second \<^verbatim>\<open>try\<close> of \<^verbatim>\<open>resolve\<close>.\<close>

definition resolve_enumerate ::
  "env \<Rightarrow> world \<Rightarrow> string \<Rightarrow> PTVSInterpreter \<Rightarrow> (exn + PTVSInterpreter) \<times> world" where
  "resolve_enumerate E W regkey_name self =
     (case QueryInfoKey E W regkey_name of
        Inl e \<Rightarrow> (Inl e, W)
      | Inr n \<Rightarrow> resolve_loop E W regkey_name self [0..<n])"

definition resolve :: "env \<Rightarrow> world \<Rightarrow> PTVSInterpreter \<Rightarrow> (exn + PTVSInterpreter) \<times> world" where
  "resolve E W self =
     (case VSVersion self of
        None \<Rightarrow> (Inl resolve_no_version, W)
      | Some v \<Rightarrow>
          if v = [] then (Inl resolve_no_version, W)
          else
            (case OpenKey E W (dirname E (regkey_name_of v)) of
               Inl e \<Rightarrow>
                 (if is_WindowsError e then (Inl (resolve_not_installed E v), W) else (Inl e, W))
             | Inr h \<Rightarrow>
                 (case CreateKey E W (regkey_name_of v) of
                    (Inl e, W1) \<Rightarrow> (Inl e, W1)
                  | (Inr regkey, W1) \<Rightarrow>
                      (case resolve_enumerate E W1 regkey self of
                         (Inl e, W2) \<Rightarrow>
                           (if is_WindowsError e then (Inr self, W2) else (Inl e, W2))
                       | (Inr self', W2) \<Rightarrow> (Inr self', W2)))))"

text \<open>
  \<^verbatim>\<open>'{0}\\{{{1}}}'.format(regkey_name, self.lower(self.GUID))\<close>: the entry key of a
  descriptor.
\<close>

definition interpreter_regkey_name :: "env \<Rightarrow> string \<Rightarrow> guid \<Rightarrow> string" where
  "interpreter_regkey_name E v g = regkey_name_of v @ [bslash] @ ''{'' @ vsg_lower E g @ ''}''"

text \<open>The values \<^verbatim>\<open>register\<close> writes, in its order.\<close>

definition register_values :: "PTVSInterpreter \<Rightarrow> (string \<times> string) list" where
  "register_values self =
     [(''Architecture'', Architecture self),
      (''Description'', Description self),
      (''InterpreterPath'', InterpreterAbsPath self),
      (''Version'', Version self),
      (''WindowsInterpreterPath'', WindowsInterpreterAbsPath self),
      (''PathEnvironmentVariable'', PathEnvironmentVariable self)]"

fun write_values :: "env \<Rightarrow> world \<Rightarrow> string \<Rightarrow> (string \<times> string) list \<Rightarrow> (exn + unit) \<times> world" where
  "write_values E W regkey [] = (Inr (), W)"
| "write_values E W regkey ((name, v) # rest) =
     (case SetValueEx E W regkey name v of
        (Inl e, W1) \<Rightarrow> (Inl e, W1)
      | (Inr u, W1) \<Rightarrow> write_values E W1 regkey rest)"

text \<open>Lines 288 to 295: the body of the second \<^verbatim>\<open>try\<close> of \<^verbatim>\<open>register\<close>.\<close>

definition register_write ::
  "env \<Rightarrow> world \<Rightarrow> string \<Rightarrow> PTVSInterpreter \<Rightarrow> (exn + unit) \<times> world" where
  "register_write E W keyname self =
     (case CreateKey E W keyname of
        (Inl e, W1) \<Rightarrow> (Inl e, W1)
      | (Inr regkey, W1) \<Rightarrow> write_values E W1 regkey (register_values self))"

definition register :: "env \<Rightarrow> world \<Rightarrow> PTVSInterpreter \<Rightarrow> (exn + bool) \<times> world" where
  "register E W self =
     (case VSVersion self of
        None \<Rightarrow> (Inl register_no_version, W)
      | Some v \<Rightarrow>
          if v = [] then (Inl register_no_version, W)
          else
            (case OpenKey E W (dirname E (regkey_name_of v)) of
               Inl e \<Rightarrow>
                 (if is_WindowsError e then (Inl (register_not_installed E v), W) else (Inl e, W))
             | Inr h \<Rightarrow>
                 (case register_write E W (interpreter_regkey_name E v (GUID self)) self of
                    (Inl e, W1) \<Rightarrow> (if is_WindowsError e then (Inr False, W1) else (Inl e, W1))
                  | (Inr u, W1) \<Rightarrow> (Inr True, W1))))"

section \<open>Describe: installations\<close>

text \<open>Lines 179 to 185 of \<^verbatim>\<open>from_python_installation\<close>.\<close>

definition installation_args :: "env \<Rightarrow> string \<Rightarrow> kwargs \<Rightarrow> kwargs" where
  "installation_args E root kwargs =
     (let args = kwargs\<lparr>kw_Path := Some root,
                        kw_InterpreterPath := Some ''python.exe'',
                        kw_Description := setdefault (kw_Description kwargs) (basename E root)\<rparr>
      in if exists E (join E root [''pythonw.exe''])
         then args\<lparr>kw_WindowsInterpreterPath := Some ''pythonw.exe''\<rparr>
         else args)"

text \<open>
  The two probes and their \<^verbatim>\<open>if version:\<close>, \<^verbatim>\<open>if architecture:\<close> tests, which both
  factories run in the same words.
\<close>

definition probe_args :: "env \<Rightarrow> string \<Rightarrow> kwargs \<Rightarrow> exn + kwargs" where
  "probe_args E python args =
     (case python_version E python of
        Inl e \<Rightarrow> Inl e
      | Inr version \<Rightarrow>
          (let args1 = (if truthy version then args\<lparr>kw_Version := version\<rparr> else args)
           in case python_architecture E python of
                Inl e \<Rightarrow> Inl e
              | Inr architecture \<Rightarrow>
                  Inr (if truthy architecture then args1\<lparr>kw_Architecture := architecture\<rparr>
                       else args1)))"

definition from_python_installation ::
  "env \<Rightarrow> world \<Rightarrow> string \<Rightarrow> kwargs \<Rightarrow> (exn + PTVSInterpreter option) \<times> world" where
  "from_python_installation E W directory kwargs =
     (let root = abspath E directory;
          python = abspath E (join E root [''python.exe''])
      in if \<not> exists E python then (Inr None, W)
         else
           (case probe_args E python (installation_args E root kwargs) of
              Inl e \<Rightarrow> (Inl e, W)
            | Inr args \<Rightarrow>
                (case PTVSInterpreter_import E W args of
                   (interpreter, W1) \<Rightarrow>
                     (case resolve E W1 interpreter of
                        (Inl e, W2) \<Rightarrow> (Inl e, W2)
                      | (Inr interpreter', W2) \<Rightarrow> (Inr (Some interpreter'), W2)))))"

section \<open>Describe: virtual environments\<close>

text \<open>
  The local variable \<^verbatim>\<open>basedir\<close>: not assigned yet, or assigned a value, which is \<^verbatim>\<open>None\<close>
  when \<^verbatim>\<open>next\<close> falls back to its default on an empty file.
\<close>

datatype 'a binding = Unbound | Bound 'a

text \<open>\<^verbatim>\<open>next((line.rstrip() for line in f), None)\<close>\<close>

definition first_line :: "string list \<Rightarrow> string option" where
  "first_line ls = (case ls of [] \<Rightarrow> None | l # rest \<Rightarrow> Some (rstrip l))"

text \<open>The loop over the lines of \<^verbatim>\<open>pyvenv.cfg\<close>.\<close>

fun scan_pyvenvcfg :: "string list \<Rightarrow> string option binding \<Rightarrow> string option binding" where
  "scan_pyvenvcfg [] basedir = basedir"
| "scan_pyvenvcfg (line # rest) basedir =
     (if CHR ''='' \<in> set line then
        (let key = lower (strip (fst (partition_eq line)));
             val = strip (snd (partition_eq line))
         in scan_pyvenvcfg rest (if key = ''home'' then Bound (Some val) else basedir))
      else scan_pyvenvcfg rest basedir)"

definition origprefix_of :: "env \<Rightarrow> string \<Rightarrow> string" where
  "origprefix_of E root = abspath E (join E root [''Lib'', ''orig-prefix.txt''])"

definition pyvenvcfg_of :: "env \<Rightarrow> string \<Rightarrow> string" where
  "pyvenvcfg_of E root = abspath E (join E root [''pyvenv.cfg''])"

text \<open>
  Lines 126 to 138: the two reads that assign \<^verbatim>\<open>basedir\<close>. Opening a file that cannot be
  read raises.
\<close>

definition locate_basedir :: "env \<Rightarrow> string \<Rightarrow> exn + string option binding" where
  "locate_basedir E root =
     (case (if exists E (origprefix_of E root)
            then (case file_lines E (origprefix_of E root) of
                    None \<Rightarrow> Inl IOError
                  | Some ls \<Rightarrow> Inr (Bound (first_line ls)))
            else Inr Unbound) of
        Inl e \<Rightarrow> Inl e
      | Inr basedir \<Rightarrow>
          (if exists E (pyvenvcfg_of E root)
           then (case file_lines E (pyvenvcfg_of E root) of
                   None \<Rightarrow> Inl IOError
                 | Some ls \<Rightarrow> Inr (scan_pyvenvcfg ls basedir))
           else Inr basedir))"

text \<open>Lines 144 to 151 of \<^verbatim>\<open>from_virtual_environment\<close>.\<close>

definition environment_args :: "env \<Rightarrow> string \<Rightarrow> kwargs \<Rightarrow> PTVSInterpreter \<Rightarrow> kwargs" where
  "environment_args E root kwargs baseinterpretter =
     (let args = kwargs\<lparr>kw_Path := Some root,
                        kw_BaseInterpreter := Some (GUID baseinterpretter),
                        kw_InterpreterPath := Some (join E ''Scripts'' [''python.exe'']),
                        kw_Description := setdefault (kw_Description kwargs)
                          (basename E root @ '' ('' @ Description baseinterpretter @ '')'')\<rparr>
      in if exists E (join E root [''Scripts'', ''pythonw.exe''])
         then args\<lparr>kw_WindowsInterpreterPath := Some (join E ''Scripts'' [''pythonw.exe''])\<rparr>
         else args)"

text \<open>
  Lines 140 to 163, from the call on \<^verbatim>\<open>basedir\<close>: reading a variable that was never
  assigned raises \<^verbatim>\<open>UnboundLocalError\<close>, and \<^verbatim>\<open>os.path.abspath(None)\<close> raises \<^verbatim>\<open>TypeError\<close>.
\<close>

definition environment_from_base ::
  "env \<Rightarrow> world \<Rightarrow> string \<Rightarrow> string \<Rightarrow> kwargs \<Rightarrow> string option binding
     \<Rightarrow> (exn + PTVSInterpreter option) \<times> world" where
  "environment_from_base E W root python kwargs basedir =
     (case basedir of
        Unbound \<Rightarrow> (Inl UnboundLocalError, W)
      | Bound None \<Rightarrow> (Inl TypeError, W)
      | Bound (Some d) \<Rightarrow>
          (case from_python_installation E W d kwargs of
             (Inl e, W1) \<Rightarrow> (Inl e, W1)
           | (Inr None, W1) \<Rightarrow> (Inr None, W1)
           | (Inr (Some baseinterpretter), W1) \<Rightarrow>
               (case probe_args E python (environment_args E root kwargs baseinterpretter) of
                  Inl e \<Rightarrow> (Inl e, W1)
                | Inr args \<Rightarrow>
                    (case PTVSInterpreter_import E W1 args of
                       (interpreter, W2) \<Rightarrow> (Inr (Some interpreter), W2)))))"

definition from_virtual_environment ::
  "env \<Rightarrow> world \<Rightarrow> string \<Rightarrow> kwargs \<Rightarrow> (exn + PTVSInterpreter option) \<times> world" where
  "from_virtual_environment E W directory kwargs =
     (let root = abspath E directory;
          python = abspath E (join E root [''Scripts'', ''python.exe''])
      in if \<not> exists E python then (Inr None, W)
         else if \<not> exists E (origprefix_of E root) \<and> \<not> exists E (pyvenvcfg_of E root)
         then (Inr None, W)
         else
           (case locate_basedir E root of
              Inl e \<Rightarrow> (Inl e, W)
            | Inr basedir \<Rightarrow> environment_from_base E W root python kwargs basedir))"

section \<open>Batch resolution from a configuration section\<close>

text \<open>
  The configuration reader is the parser object of \<^verbatim>\<open>vsgen\<close>; the module uses its
  membership test, \<^verbatim>\<open>sections()\<close>, \<^verbatim>\<open>getdirs\<close> and \<^verbatim>\<open>get\<close>. \<open>None\<close> is the case in which
  the reader returns the \<^verbatim>\<open>fallback\<close>.
\<close>

record config =
  cfg_contains :: "string \<Rightarrow> bool"
  cfg_sections :: "string list"
  cfg_getdirs :: "string \<Rightarrow> string \<Rightarrow> string list option"
  cfg_get :: "string \<Rightarrow> string \<Rightarrow> string option"

text \<open>
  What the builtin \<^verbatim>\<open>filter\<close> returns: a list in Python 2, an iterator in Python 3, held
  with the items it has still to yield.
\<close>

datatype 'a pyseq = PyList "'a list" | PyIter "'a list"


fun filter_None :: "'a option list \<Rightarrow> 'a list" where
  "filter_None [] = []"
| "filter_None (None # xs) = filter_None xs"
| "filter_None (Some x # xs) = x # filter_None xs"

definition builtin_filter :: "env \<Rightarrow> 'a option list \<Rightarrow> 'a pyseq" where
  "builtin_filter E xs = (if py3 E then PyIter (filter_None xs) else PyList (filter_None xs))"

text \<open>
  The list comprehension \<^verbatim>\<open>[f(p, **kwargs) for p in paths]\<close>: the calls run in order on
  the world the call before left, and the first one that raises ends the comprehension.
\<close>

fun comprehension ::
  "(world \<Rightarrow> string \<Rightarrow> (exn + 'a) \<times> world) \<Rightarrow> world \<Rightarrow> string list \<Rightarrow> (exn + 'a list) \<times> world" where
  "comprehension f W [] = (Inr [], W)"
| "comprehension f W (p # ps) =
     (case f W p of
        (Inl e, W1) \<Rightarrow> (Inl e, W1)
      | (Inr r, W1) \<Rightarrow>
          (case comprehension f W1 ps of
             (Inl e, W2) \<Rightarrow> (Inl e, W2)
           | (Inr rs, W2) \<Rightarrow> (Inr (r # rs), W2)))"

text \<open>\<^verbatim>\<open>i.Description = config.get(section, 'description', fallback=i.Description)\<close>\<close>

definition set_description :: "config \<Rightarrow> string \<Rightarrow> PTVSInterpreter \<Rightarrow> PTVSInterpreter" where
  "set_description cfg section i =
     i\<lparr>Description := dict_get (cfg_get cfg section ''description'') (Description i)\<rparr>"

text \<open>
  The \<^verbatim>\<open>for\<close> loop over \<^verbatim>\<open>interpreters\<close>, as the value the name refers to after it: a
  list keeps its (updated) objects, an iterator has been used up.
\<close>

definition describe_all :: "config \<Rightarrow> string \<Rightarrow> PTVSInterpreter pyseq \<Rightarrow> PTVSInterpreter pyseq" where
  "describe_all cfg section interpreters =
     (case interpreters of
        PyList xs \<Rightarrow> PyList (map (set_description cfg section) xs)
      | PyIter xs \<Rightarrow> PyIter [])"

definition section_not_found :: "config \<Rightarrow> string \<Rightarrow> exn" where
  "section_not_found cfg section =
     ValueError (''Section ['' @ section @ ''] not found in [''
       @ join_comma (cfg_sections cfg) @ '']'')"

definition from_section ::
  "env \<Rightarrow> world \<Rightarrow> config \<Rightarrow> string \<Rightarrow> kwargs \<Rightarrow> (exn + PTVSInterpreter pyseq) \<times> world" where
  "from_section E W cfg section kwargs =
     (if \<not> cfg_contains cfg section then (Inl (section_not_found cfg section), W)
      else
        (let interpreter_paths = dict_get (cfg_getdirs cfg section ''interpreter_paths'') [];
             environment_paths = dict_get (cfg_getdirs cfg section ''environment_paths'') []
         in if interpreter_paths \<noteq> [] then
              (case comprehension (\<lambda>W' p. from_python_installation E W' p kwargs) W
                      interpreter_paths of
                 (Inl e, W1) \<Rightarrow> (Inl e, W1)
               | (Inr rs, W1) \<Rightarrow> (Inr (describe_all cfg section (builtin_filter E rs)), W1))
            else if environment_paths \<noteq> [] then
              (case comprehension (\<lambda>W' p. from_virtual_environment E W' p kwargs) W
                      environment_paths of
                 (Inl e, W1) \<Rightarrow> (Inl e, W1)
               | (Inr rs, W1) \<Rightarrow> (Inr (describe_all cfg section (builtin_filter E rs)), W1))
            else (Inr (PyList []), W)))"

section \<open>Notions used to state the properties\<close>

text \<open>Two worlds with the same registry; they may differ in the identities handed out so far.\<close>

definition same_registry :: "world \<Rightarrow> world \<Rightarrow> bool" where
  "same_registry W W' \<longleftrightarrow> reg_keys W' = reg_keys W \<and> reg_values W' = reg_values W"

text \<open>
  What \<^verbatim>\<open>from_registry_key\<close> makes of the entry \<open>name\<close> under the key \<open>k\<close>, whether the
  entry's console-interpreter path equals the descriptor's up to case, and whether the
  enumeration goes past index \<open>i\<close>: the index is read without a fault and its entry does
  not match.
\<close>

definition entry_descriptor :: "env \<Rightarrow> world \<Rightarrow> string \<Rightarrow> string \<Rightarrow> PTVSInterpreter option" where
  "entry_descriptor E W k name =
     (case fst (from_registry_key E W (k @ [bslash] @ name)) of Inr r \<Rightarrow> r | Inl e \<Rightarrow> None)"

definition entry_matches :: "env \<Rightarrow> world \<Rightarrow> string \<Rightarrow> PTVSInterpreter \<Rightarrow> string \<Rightarrow> bool" where
  "entry_matches E W k self name \<longleftrightarrow>
     (case entry_descriptor E W k name of
        Some d \<Rightarrow> lower (InterpreterAbsPath d) = lower (InterpreterAbsPath self)
      | None \<Rightarrow> False)"

definition passes :: "env \<Rightarrow> world \<Rightarrow> string \<Rightarrow> PTVSInterpreter \<Rightarrow> nat \<Rightarrow> bool" where
  "passes E W k self i \<longleftrightarrow>
     \<not> reg_fault E (OpEnumKey k i) \<and> i < length (subkeys W k)
     \<and> \<not> entry_matches E W k self (subkeys W k ! i)"

text \<open>
  The values of the lines of \<^verbatim>\<open>pyvenv.cfg\<close> whose key, trimmed and in lower case, is
  \<^verbatim>\<open>home\<close>, in the order of the file.
\<close>

definition home_values :: "string list \<Rightarrow> string list" where
  "home_values ls =
     map (\<lambda>l. strip (snd (partition_eq l)))
       (filter (\<lambda>l. CHR ''='' \<in> set l \<and> lower (strip (fst (partition_eq l))) = ''home'') ls)"

text \<open>
  The identity token that \<^verbatim>\<open>from_registry_key\<close> cuts out of the name of an entry, and a
  catalog in which every entry is named by a token that \<^verbatim>\<open>uuid.UUID\<close> accepts.
\<close>

definition entry_identity :: "env \<Rightarrow> string \<Rightarrow> string \<Rightarrow> string" where
  "entry_identity E k name = slice_1_m1 (basename E (k @ [bslash] @ name))"

definition catalog_wellformed :: "env \<Rightarrow> world \<Rightarrow> string \<Rightarrow> bool" where
  "catalog_wellformed E W k \<longleftrightarrow>
     (\<forall>name\<in>set (subkeys W k). uuid_parse E (entry_identity E k name) \<noteq> None)"

text \<open>
  The policy of a section in the words of the specification: the installation
  directories when there are any, otherwise the environment directories, each list
  resolved by its own factory.
\<close>

definition section_paths :: "config \<Rightarrow> string \<Rightarrow> string list" where
  "section_paths cfg section =
     (if dict_get (cfg_getdirs cfg section ''interpreter_paths'') [] \<noteq> []
      then dict_get (cfg_getdirs cfg section ''interpreter_paths'') []
      else dict_get (cfg_getdirs cfg section ''environment_paths'') [])"






section \<open>A small machine for the examples\<close>

text \<open>
  One concrete environment and world on which the properties are run: path functions
  for plain backslash-separated paths, an installation at \<^verbatim>\<open>C:\P\<close>, virtual environments at
  \<^verbatim>\<open>C:\V\<close>, \<^verbatim>\<open>C:\U\<close>, \<^verbatim>\<open>C:\N\<close> and \<^verbatim>\<open>C:\T\<close>, and a catalog for version 14.0 that already holds
  one entry. \<open>win\<close> writes a path with \<^verbatim>\<open>/\<close> for the backslash.
\<close>

definition win :: "string \<Rightarrow> string" where
  "win s = map (\<lambda>c. if c = CHR ''/'' then bslash else c) s"

definition ex_join :: "string \<Rightarrow> string list \<Rightarrow> string" where
  "ex_join p parts = foldl (\<lambda>a b. a @ [bslash] @ b) p parts"

definition ex_abspath :: "string \<Rightarrow> string" where
  "ex_abspath p = rev (dropWhile (\<lambda>c. c = bslash) (rev p))"

definition ex_isabs :: "string \<Rightarrow> bool" where
  "ex_isabs p = (case p of d # c # rest \<Rightarrow> c = CHR '':'' | _ \<Rightarrow> False)"

definition ex_basename :: "string \<Rightarrow> string" where
  "ex_basename p = rev (takeWhile (\<lambda>c. c \<noteq> bslash) (rev p))"

definition ex_dirname :: "string \<Rightarrow> string" where
  "ex_dirname p = rev (drop 1 (dropWhile (\<lambda>c. c \<noteq> bslash) (rev p)))"

definition ex_files :: "(string \<times> string list) list" where
  "ex_files =
     [(win ''C:/P/python.exe'', []),
      (win ''C:/V/Scripts/python.exe'', []),
      (win ''C:/V/pyvenv.cfg'', [''Home = '' @ win ''C:/P'' @ [CHR 0xA0, CHR 0x0A]]),
      (win ''C:/V/Lib/orig-prefix.txt'', [win ''C:/Q'' @ [CHR 0x0A]]),
      (win ''C:/U/Scripts/python.exe'', []),
      (win ''C:/U/pyvenv.cfg'', [''version = 3.9'' @ [CHR 0x0A]]),
      (win ''C:/N/Scripts/python.exe'', []),
      (win ''C:/T/Scripts/python.exe'', []),
      (win ''C:/T/Lib/orig-prefix.txt'', [win ''C:/Q'' @ [CHR 0x0A]])]"

definition ex_popen :: "string list \<Rightarrow> exn + (string \<times> string)" where
  "ex_popen argv =
     (case argv of
        [i, c, script] \<Rightarrow>
          (if i = win ''C:/V/Scripts/python.exe'' then Inl (OtherError 0)
           else if script = version_script then Inr (''2.7'' @ [CHR 0xA0, CHR 0x0A], [])
           else Inr (''x64'' @ [CHR 0x0D, CHR 0x0A], []))
      | _ \<Rightarrow> Inl (OtherError 1))"

definition ex_env :: env where
  "ex_env = \<lparr> py3 = False, abspath = ex_abspath, join = ex_join, isabs = ex_isabs,
     basename = ex_basename, dirname = ex_dirname,
     exists = (\<lambda>p. p \<in> set (map fst ex_files)),
     file_lines = map_of ex_files,
     popen_communicate = ex_popen,
     decode_utf8 = Inr,
     uuid_parse = (\<lambda>s. if s = ''ab'' then Some 171 else None),
     vsg_text = (\<lambda>s. s),
     vsg_lower = (\<lambda>g. case g of UUID n \<Rightarrow> replicate n (CHR ''f'') | GuidStr s \<Rightarrow> lower s),
     reg_fault = (\<lambda>op. False) \<rparr>"

definition ex_entry :: string where
  "ex_entry = regkey_name_of ''14.0'' @ [bslash] @ ''{ab}''"

definition ex_world :: world where
  "ex_world = \<lparr> reg_keys = [win ''Software/Microsoft/VisualStudio/14.0/PythonTools'', ex_entry],
     reg_values = (\<lambda>k. if k = ex_entry
        then map_of [(''Architecture'', ''x86''), (''Description'', ''Old''),
                     (''InterpreterPath'', win ''c:/p/PYTHON.EXE''), (''Version'', ''2.7''),
                     (''WindowsInterpreterPath'', win ''c:/p''),
                     (''PathEnvironmentVariable'', ''PYTHONPATH'')]
        else Map.empty),
     uuid_clock = 0 \<rparr>"

definition kw14 :: kwargs where
  "kw14 = no_kwargs\<lparr>kw_VSVersion := Some ''14.0''\<rparr>"

definition ex_args :: kwargs where
  "ex_args = kw14\<lparr>kw_Id := Some (GuidStr ''CD''), kw_Architecture := Some ''x64'',
           kw_Version := Some ''2.7'', kw_Path := Some (win ''C:/P''),
           kw_Description := Some ''P'', kw_InterpreterPath := Some ''python.exe''\<rparr>"

definition ex_self :: PTVSInterpreter where
  "ex_self = fst (PTVSInterpreter_import ex_env ex_world ex_args)"

definition ex_unused :: PTVSInterpreter where
  "ex_unused = fst (PTVSInterpreter_import ex_env ex_world
     (kw14\<lparr>kw_Id := Some (GuidStr ''CD''), kw_Architecture := Some ''x64'',
           kw_Version := Some ''2.7'', kw_Path := Some (win ''C:/P''),
           kw_Description := Some ''P'', kw_InterpreterPath := Some ''python.exe''\<rparr>))"

definition ex_other :: PTVSInterpreter where
  "ex_other = ex_self\<lparr>InterpreterAbsPath := win ''C:/Z/python.exe''\<rparr>"

definition ex_catalog :: string where
  "ex_catalog = regkey_name_of ''14.0''"

definition ex_opened :: world where
  "ex_opened = snd (CreateKey ex_env ex_world ex_catalog)"

definition ex_faulty :: env where
  "ex_faulty = ex_env\<lparr>reg_fault := (\<lambda>op. case op of OpSetValueEx k n \<Rightarrow> n = ''Version'' | _ \<Rightarrow> False)\<rparr>"

definition ex_key :: string where
  "ex_key = interpreter_regkey_name ex_env ''14.0'' (GUID ex_self)"



definition ex_installed :: "PTVSInterpreter option" where
  "ex_installed = (case fst (from_python_installation ex_env ex_world (win ''C:/P'') kw14) of
                     Inr r \<Rightarrow> r | Inl e \<Rightarrow> None)"

definition ex_environment :: "PTVSInterpreter option" where
  "ex_environment = (case fst (from_virtual_environment ex_env ex_world (win ''C:/V'') kw14) of
                     Inr r \<Rightarrow> r | Inl e \<Rightarrow> None)"

text \<open>
  A catalog whose only entry has the path of the installation but a name that is not an
  identity, the world once its catalog key is opened, an environment in which no key can
  be created, and the installation list of the section \<^verbatim>\<open>py\<close>.
\<close>

definition ex_broken :: world where
  "ex_broken = \<lparr> reg_keys = [win ''Software/Microsoft/VisualStudio/14.0/PythonTools'',
        ex_catalog @ [bslash] @ ''{zz}''],
     reg_values = (\<lambda>k. if k = ex_catalog @ [bslash] @ ''{zz}''
        then map_of [(''Architecture'', ''x86''), (''Description'', ''Old''),
                     (''InterpreterPath'', win ''c:/p/PYTHON.EXE'')]
        else Map.empty),
     uuid_clock = 0 \<rparr>"

definition ex_locked :: env where
  "ex_locked = ex_env\<lparr>reg_fault := (\<lambda>op. case op of OpCreateKey k \<Rightarrow> True | _ \<Rightarrow> False)\<rparr>"

definition ex_reopened :: world where
  "ex_reopened = snd (CreateKey ex_env ex_broken ex_catalog)"


section \<open>Lemmas about the loader and the registry\<close>

lemma same_registry_refl: "same_registry W W"
  by (simp add: same_registry_def)

lemma same_registry_trans: "same_registry W W1 \<Longrightarrow> same_registry W1 W2 \<Longrightarrow> same_registry W W2"
  by (simp add: same_registry_def)

lemma same_registry_subkeys: "same_registry W W' \<Longrightarrow> subkeys W' k = subkeys W k"
  by (simp add: same_registry_def subkeys_def)

lemma same_registry_EnumKey: "same_registry W W' \<Longrightarrow> EnumKey E W' k i = EnumKey E W k i"
  by (simp add: EnumKey_def same_registry_subkeys)

lemma import_world:
  "snd (PTVSInterpreter_import E W a) = W\<lparr>uuid_clock := Suc (uuid_clock W)\<rparr>"
  by (simp add: PTVSInterpreter_import_def uuid1_def Let_def)

lemma import_same_registry:
  "PTVSInterpreter_import E W a = (d, W1) \<Longrightarrow> same_registry W W1"
  using import_world [of E W a] by (auto simp: same_registry_def)

lemma import_with_Id:
  "kw_Id a = Some g \<Longrightarrow> same_registry W W'
   \<Longrightarrow> fst (PTVSInterpreter_import E W' a) = fst (PTVSInterpreter_import E W a)"
  by (simp add: PTVSInterpreter_import_def uuid1_def Let_def dict_get_def)

lemma QueryValueEx_same: "same_registry W W' \<Longrightarrow> QueryValueEx E W' k n = QueryValueEx E W k n"
  by (simp add: QueryValueEx_def same_registry_def)

lemma QueryValueEx_raises: "QueryValueEx E W k n = Inl e \<Longrightarrow> e = WindowsError"
  by (auto simp: QueryValueEx_def split: if_splits option.splits)

lemma read_fields_same:
  "same_registry W W' \<Longrightarrow> read_fields E W' k ns a = read_fields E W k ns a"
  by (induction ns arbitrary: a) (auto simp: QueryValueEx_same split: sum.splits)

lemma read_fields_raises: "read_fields E W k ns a = (Inl e, a') \<Longrightarrow> e = WindowsError"
  by (induction ns arbitrary: a) (auto split: sum.splits dest: QueryValueEx_raises)

lemma read_entry_same: "same_registry W W' \<Longrightarrow> read_entry E W' k = read_entry E W k"
  by (simp add: read_entry_def OpenKey_def read_fields_same) (simp add: same_registry_def)

lemma read_entry_raises: "read_entry E W k = (Inl e, a) \<Longrightarrow> e = WindowsError"
  by (auto simp: read_entry_def OpenKey_def split: if_splits dest: read_fields_raises)

lemma descriptor_of_args_same:
  "same_registry W W'
   \<Longrightarrow> fst (descriptor_of_args E W' k a) = fst (descriptor_of_args E W k a)"
  by (simp add: descriptor_of_args_def split_beta import_with_Id split: option.splits)

lemma descriptor_of_args_world:
  "descriptor_of_args E W k a = (r, W1) \<Longrightarrow> same_registry W W1"
  by (auto simp: descriptor_of_args_def same_registry_refl split: option.splits prod.splits
        dest: import_same_registry)

lemma from_registry_key_returns:
  "\<exists>r W1. from_registry_key E W k = (Inr r, W1) \<and> same_registry W W1"
  by (auto simp: from_registry_key_def is_WindowsError_def split: prod.splits sum.splits
        dest: read_entry_raises descriptor_of_args_world)

lemma from_registry_key_same:
  "same_registry W W' \<Longrightarrow> fst (from_registry_key E W' k) = fst (from_registry_key E W k)"
  by (simp add: from_registry_key_def read_entry_same split_beta descriptor_of_args_same
        split: sum.splits)

lemma from_registry_key_entry:
  assumes "same_registry W0 W"
  shows "\<exists>W1. from_registry_key E W (k @ [bslash] @ name) = (Inr (entry_descriptor E W0 k name), W1)
           \<and> same_registry W0 W1"
proof -
  obtain r W1 where r: "from_registry_key E W (k @ [bslash] @ name) = (Inr r, W1)"
    and s: "same_registry W W1"
    using from_registry_key_returns by blast
  have "fst (from_registry_key E W0 (k @ [bslash] @ name)) = Inr r"
    using from_registry_key_same [OF assms, of E "k @ [bslash] @ name"] r by simp
  then have "entry_descriptor E W0 k name = r"
    by (simp add: entry_descriptor_def)
  with r s assms show ?thesis
    by (auto intro: same_registry_trans)
qed

lemma resolve_loop_skip:
  assumes "same_registry W0 W" and "passes E W0 k self i"
  shows "\<exists>W1. same_registry W0 W1
           \<and> resolve_loop E W k self (i # rest) = resolve_loop E W1 k self rest"
proof -
  obtain W1 where f: "from_registry_key E W (k @ [bslash] @ (subkeys W0 k ! i))
      = (Inr (entry_descriptor E W0 k (subkeys W0 k ! i)), W1)" and s: "same_registry W0 W1"
    using from_registry_key_entry [OF assms(1)] by blast
  have e: "EnumKey E W k i = Inr (subkeys W0 k ! i)"
    using assms(2) unfolding same_registry_EnumKey [OF assms(1)]
    by (simp add: passes_def EnumKey_def)
  have "resolve_loop E W k self (i # rest) = resolve_loop E W1 k self rest"
    using assms(2) f by (simp add: e passes_def entry_matches_def split: option.splits)
  with s show ?thesis by blast
qed

lemma resolve_loop_no_match:
  "same_registry W0 W \<Longrightarrow> \<forall>i\<in>set idx. passes E W0 k self i
   \<Longrightarrow> \<exists>W'. resolve_loop E W k self idx = (Inr self, W') \<and> same_registry W0 W'"
proof (induction idx arbitrary: W)
  case Nil
  then show ?case by simp
next
  case (Cons i rest)
  then obtain W1 where "same_registry W0 W1"
    and "resolve_loop E W k self (i # rest) = resolve_loop E W1 k self rest"
    using resolve_loop_skip [of W0 W E k self i rest] by auto
  with Cons show ?case by simp
qed

lemma resolve_loop_prefix:
  "same_registry W0 W \<Longrightarrow> \<forall>i\<in>set pre. passes E W0 k self i
   \<Longrightarrow> \<exists>W1. same_registry W0 W1
         \<and> resolve_loop E W k self (pre @ rest) = resolve_loop E W1 k self rest"
proof (induction pre arbitrary: W)
  case Nil
  then show ?case by auto
next
  case (Cons i pre)
  then obtain W1 where "same_registry W0 W1"
    and "resolve_loop E W k self (i # pre @ rest) = resolve_loop E W1 k self (pre @ rest)"
    using resolve_loop_skip [of W0 W E k self i "pre @ rest"] by auto
  with Cons show ?case by simp
qed

lemma resolve_loop_match:
  assumes "same_registry W0 W" and "\<forall>j\<in>set pre. passes E W0 k self j"
    and "\<not> reg_fault E (OpEnumKey k i)" and "i < length (subkeys W0 k)"
    and "entry_descriptor E W0 k (subkeys W0 k ! i) = Some d"
    and "lower (InterpreterAbsPath d) = lower (InterpreterAbsPath self)"
  shows "\<exists>W'. same_registry W0 W' \<and> resolve_loop E W k self (pre @ i # post) =
           (case uuid_UUID E (GUID d) of
              Inl e \<Rightarrow> Inl e
            | Inr g \<Rightarrow> Inr (self\<lparr>GUID := g, BaseInterpreter := g\<rparr>), W')"
proof -
  obtain W1 where s1: "same_registry W0 W1"
    and p: "resolve_loop E W k self (pre @ i # post) = resolve_loop E W1 k self (i # post)"
    using resolve_loop_prefix [OF assms(1,2)] by blast
  obtain W2 where f: "from_registry_key E W1 (k @ [bslash] @ (subkeys W0 k ! i))
      = (Inr (Some d), W2)" and s2: "same_registry W0 W2"
    using from_registry_key_entry [OF s1, of E k "subkeys W0 k ! i"] assms(5) by auto
  have e: "EnumKey E W1 k i = Inr (subkeys W0 k ! i)"
    using assms(3,4) unfolding same_registry_EnumKey [OF s1]
    by (simp add: EnumKey_def)
  have "resolve_loop E W1 k self (i # post) =
           (case uuid_UUID E (GUID d) of
              Inl e \<Rightarrow> Inl e
            | Inr g \<Rightarrow> Inr (self\<lparr>GUID := g, BaseInterpreter := g\<rparr>), W2)"
    using assms(6) f by (simp add: e split: sum.splits)
  with p s2 show ?thesis by auto
qed

lemma resolve_loop_fault:
  assumes "same_registry W0 W" and "\<forall>j\<in>set pre. passes E W0 k self j"
    and "reg_fault E (OpEnumKey k i)"
  shows "\<exists>W'. same_registry W0 W' \<and> resolve_loop E W k self (pre @ i # post) = (Inl WindowsError, W')"
proof -
  obtain W1 where s1: "same_registry W0 W1"
    and p: "resolve_loop E W k self (pre @ i # post) = resolve_loop E W1 k self (i # post)"
    using resolve_loop_prefix [OF assms(1,2)] by blast
  have "resolve_loop E W1 k self (i # post) = (Inl WindowsError, W1)"
    using assms(3) by (simp add: EnumKey_def)
  with p s1 show ?thesis by auto
qed
lemma upt_split_at: "i < n \<Longrightarrow> [0..<n] = [0..<i] @ i # [Suc i..<n]"
  using upt_add_eq_append [of 0 i "n - i"] by (simp add: upt_conv_Cons)

lemma CreateKey_result:
  "CreateKey E W k = (Inr h, W1) \<Longrightarrow> h = k \<and> \<not> reg_fault E (OpCreateKey k)"
  by (auto simp: CreateKey_def split: if_splits)

lemma resolve_unfold:
  assumes "VSVersion self = Some v" and "v \<noteq> []"
    and "OpenKey E W (dirname E (regkey_name_of v)) = Inr h"
    and "CreateKey E W (regkey_name_of v) = (Inr k, W1)"
    and "\<not> reg_fault E (OpQueryInfoKey k)"
  shows "resolve E W self =
           (case resolve_loop E W1 k self [0..<length (subkeys W1 k)] of
              (Inl e, W2) \<Rightarrow> (if is_WindowsError e then (Inr self, W2) else (Inl e, W2))
            | (Inr self', W2) \<Rightarrow> (Inr self', W2))"
  using assms by (simp add: resolve_def resolve_enumerate_def QueryInfoKey_def)

lemma prefixes_at_last: "acc @ rest \<in> set (prefixes_at acc rest)"
proof (induction rest arbitrary: acc)
  case Nil
  then show ?case by simp
next
  case (Cons c rest)
  from Cons [of "acc @ [c]"] show ?case by auto
qed

lemma set_add_keys: "set (add_keys ks new) = set ks \<union> set new"
  unfolding add_keys_def by (induction new arbitrary: ks) auto

lemma CreateKey_creates:
  "CreateKey E W k = (Inr h, W1)
   \<Longrightarrow> k \<in> set (reg_keys W1) \<and> reg_values W1 = reg_values W \<and> uuid_clock W1 = uuid_clock W"
  using prefixes_at_last [of "[]" k]
  by (auto simp: CreateKey_def key_chain_def set_add_keys split: if_splits)

lemma CreateKey_raises: "CreateKey E W k = (Inl e, W1) \<Longrightarrow> e = WindowsError \<and> reg_fault E (OpCreateKey k)"
  by (auto simp: CreateKey_def split: if_splits)

lemma write_values_raises: "write_values E W k vs = (Inl e, W') \<Longrightarrow> e = WindowsError"
  by (induction vs arbitrary: W) (auto simp: SetValueEx_def split: if_splits)

lemma write_values_fault:
  "\<exists>n\<in>fst ` set vs. reg_fault E (OpSetValueEx k n)
   \<Longrightarrow> \<exists>W'. write_values E W k vs = (Inl WindowsError, W')"
  by (induction vs arbitrary: W) (fastforce simp: SetValueEx_def)+

lemma write_values_ok:
  "\<forall>n\<in>fst ` set vs. \<not> reg_fault E (OpSetValueEx k n)
   \<Longrightarrow> \<exists>W'. write_values E W k vs = (Inr (), W') \<and> reg_keys W' = reg_keys W
         \<and> reg_values W' k = reg_values W k ++ map_of (rev vs)"
proof (induction vs arbitrary: W)
  case Nil
  then show ?case by simp
next
  case (Cons nv vs)
  obtain n v where nv: "nv = (n, v)" by (cases nv)
  define W1 where "W1 = W\<lparr>reg_values := (reg_values W)(k := (reg_values W k)(n \<mapsto> v))\<rparr>"
  from Cons.prems nv have s: "SetValueEx E W k n v = (Inr (), W1)"
    by (simp add: SetValueEx_def W1_def)
  have step: "write_values E W k (nv # vs) = write_values E W1 k vs"
    by (simp add: nv s)
  from Cons.prems have "\<forall>n\<in>fst ` set vs. \<not> reg_fault E (OpSetValueEx k n)" by simp
  from Cons.IH [OF this, of W1] obtain W' where
    w: "write_values E W1 k vs = (Inr (), W')" and k: "reg_keys W' = reg_keys W1"
    and m: "reg_values W' k = reg_values W1 k ++ map_of (rev vs)"
    by blast
  have k1: "reg_keys W1 = reg_keys W" by (simp add: W1_def)
  have v1: "reg_values W1 k = (reg_values W k)(n \<mapsto> v)" by (simp add: W1_def)
  have "(reg_values W k)(n \<mapsto> v) ++ map_of (rev vs) = reg_values W k ++ map_of (rev (nv # vs))"
    unfolding nv by (rule ext) (simp add: map_add_def split: option.splits)
  then have "reg_values W' k = reg_values W k ++ map_of (rev (nv # vs))"
    using m v1 by simp
  with step w k k1 show ?case by simp
qed

lemma probes_return:
  "\<exists>r. python_version E p = Inr r" "\<exists>r. python_architecture E p = Inr r"
  by (simp_all add: python_version_def python_architecture_def except_BaseException_def
        split: sum.splits)

lemma probe_args_returns:
  "\<exists>ver arch. probe_args E p a = Inr (a\<lparr>kw_Version := ver, kw_Architecture := arch\<rparr>)"
proof -
  obtain rv where v: "python_version E p = Inr rv" using probes_return(1) by blast
  obtain ra where r: "python_architecture E p = Inr ra" using probes_return(2) by blast
  have "probe_args E p a =
      Inr (a\<lparr>kw_Version := (if truthy rv then rv else kw_Version a),
             kw_Architecture := (if truthy ra then ra else kw_Architecture a)\<rparr>)"
    by (simp add: probe_args_def v r Let_def)
  then show ?thesis by blast
qed

lemma resolve_loop_result:
  "resolve_loop E W k self idx = (Inr d, W')
   \<Longrightarrow> d = self \<or> (\<exists>g. d = self\<lparr>GUID := g, BaseInterpreter := g\<rparr>)"
  by (induction idx arbitrary: W)
     (auto split: sum.splits prod.splits option.splits if_splits)

lemma resolve_result:
  "resolve E W self = (Inr d, W')
   \<Longrightarrow> d = self \<or> (\<exists>g. d = self\<lparr>GUID := g, BaseInterpreter := g\<rparr>)"
  by (auto simp: resolve_def resolve_enumerate_def
        split: option.splits if_splits sum.splits prod.splits dest: resolve_loop_result)

lemma import_result:
  "PTVSInterpreter_import E W a =
     (fst (PTVSInterpreter_import E W a), W\<lparr>uuid_clock := Suc (uuid_clock W)\<rparr>)"
  using import_world [of E W a] by (simp add: prod_eq_iff)

lemma write_values_success:
  "write_values E W k vs = (Inr u, W')
   \<Longrightarrow> reg_values W' k = reg_values W k ++ map_of (rev vs)"
proof (induction vs arbitrary: W)
  case Nil
  then show ?case by simp
next
  case (Cons nv vs)
  obtain n v where nv: "nv = (n, v)" by (cases nv)
  define W1 where "W1 = W\<lparr>reg_values := (reg_values W)(k := (reg_values W k)(n \<mapsto> v))\<rparr>"
  from Cons.prems have w: "write_values E W1 k vs = (Inr u, W')"
    by (auto simp: nv SetValueEx_def W1_def split: if_splits)
  have v1: "reg_values W1 k = (reg_values W k)(n \<mapsto> v)" by (simp add: W1_def)
  have a: "reg_values W' k = reg_values W1 k ++ map_of (rev vs)"
    by (rule Cons.IH [OF w])
  have b: "reg_values W1 k ++ map_of (rev vs) = reg_values W k ++ map_of (rev (nv # vs))"
    unfolding nv v1 by (rule ext) (simp add: map_add_def split: option.splits)
  show ?case using a b by (rule trans)
qed

lemma register_True_values:
  assumes "register E W self = (Inr True, W')" and "VSVersion self = Some v"
  shows "reg_values W' (interpreter_regkey_name E v (GUID self))
           = reg_values W (interpreter_regkey_name E v (GUID self))
               ++ map_of (rev (register_values self))"
proof -
  let ?key = "interpreter_regkey_name E v (GUID self)"
  from assms have ne: "v \<noteq> []"
    by (auto simp: register_def split: if_splits)
  from assms ne obtain h where o: "OpenKey E W (dirname E (regkey_name_of v)) = Inr h"
    by (auto simp: register_def split: sum.splits if_splits)
  from assms ne o have w: "register_write E W ?key self = (Inr (), W')"
    by (auto simp: register_def split: sum.splits prod.splits if_splits)
  then obtain W1 where c: "CreateKey E W ?key = (Inr ?key, W1)"
    and ws: "write_values E W1 ?key (register_values self) = (Inr (), W')"
    by (auto simp: register_write_def split: sum.splits prod.splits dest: CreateKey_result)
  from CreateKey_creates [OF c] write_values_success [OF ws] show ?thesis by simp
qed

section \<open>Lemmas about the factories\<close>

lemma scan_pyvenvcfg_home:
  "scan_pyvenvcfg ls b =
     (if home_values ls = [] then b else Bound (Some (last (home_values ls))))"
  by (induction ls arbitrary: b) (auto simp: home_values_def Let_def)

lemma import_fields:
  "PTVSInterpreter_import E W a = (d, W1)
   \<Longrightarrow> GUID d = dict_get (kw_Id a) (UUID (uuid_clock W))
     \<and> BaseInterpreter d = dict_get (kw_BaseInterpreter a) (GUID d)
     \<and> Path d = dict_get (kw_Path a) []
     \<and> Description d = dict_get (kw_Description a) []
     \<and> InterpreterPath d = dict_get (kw_InterpreterPath a) []
     \<and> InterpreterAbsPath d
         = dict_get (kw_InterpreterAbsPath a) (derive_abs E (Path d) (InterpreterPath d))
     \<and> VSVersion d = kw_VSVersion a"
  by (auto simp: PTVSInterpreter_import_def uuid1_def Let_def)

lemma prefixes_at_length:
  "p \<in> set (prefixes_at acc rest) \<Longrightarrow> length p \<le> length acc + length rest"
proof (induction rest arbitrary: acc)
  case Nil
  then show ?case by simp
next
  case (Cons c rest)
  from Cons.prems Cons.IH [of "acc @ [c]"] show ?case
    by (auto split: if_splits)
qed

lemma is_subkey_longer: "is_subkey k p \<Longrightarrow> length k < length p"
  by (auto simp: is_subkey_def)

lemma filter_add_keys:
  "\<forall>p\<in>set new. \<not> P p \<Longrightarrow> filter P (add_keys ks new) = filter P ks"
  unfolding add_keys_def by (induction new arbitrary: ks) auto

lemma CreateKey_subkeys:
  assumes "CreateKey E W k = (Inr h, W1)"
  shows "subkeys W1 k = subkeys W k"
proof -
  have "\<forall>p\<in>set (key_chain k). \<not> is_subkey k p"
    using prefixes_at_length [of _ "[]" k] is_subkey_longer [of k]
    by (fastforce simp: key_chain_def)
  then have "filter (is_subkey k) (add_keys (reg_keys W) (key_chain k))
      = filter (is_subkey k) (reg_keys W)"
    by (rule filter_add_keys)
  with assms show ?thesis
    by (auto simp: CreateKey_def subkeys_def split: if_splits)
qed

lemma descriptor_of_args_GUID:
  "descriptor_of_args E W key a = (Some d, W1)
   \<Longrightarrow> GUID d = GuidStr (slice_1_m1 (basename E key))"
  by (auto simp: descriptor_of_args_def PTVSInterpreter_import_def uuid1_def Let_def dict_get_def
        split: option.splits)

lemma from_registry_key_GUID:
  "from_registry_key E W key = (Inr (Some d), W1)
   \<Longrightarrow> GUID d = GuidStr (slice_1_m1 (basename E key))"
  by (auto simp: from_registry_key_def split: prod.splits sum.splits if_splits
        dest: descriptor_of_args_GUID)

lemma resolve_loop_total:
  "catalog_wellformed E W0 k \<Longrightarrow> same_registry W0 W
   \<Longrightarrow> \<exists>r W'. resolve_loop E W k self idx = (r, W')
         \<and> (r = Inl WindowsError \<or> (\<exists>d. r = Inr d))"
proof (induction idx arbitrary: W)
  case Nil
  then show ?case by simp
next
  case (Cons i rest)
  show ?case
  proof (cases "EnumKey E W k i")
    case (Inl e)
    then have "e = WindowsError" by (auto simp: EnumKey_def split: if_splits)
    with Inl show ?thesis by simp
  next
    case (Inr name)
    then have "name \<in> set (subkeys W k)" by (auto simp: EnumKey_def split: if_splits)
    then have n: "name \<in> set (subkeys W0 k)"
      using same_registry_subkeys [OF Cons.prems(2)] by simp
    obtain r W1 where f: "from_registry_key E W (k @ [bslash] @ name) = (Inr r, W1)"
      and s: "same_registry W W1"
      using from_registry_key_returns by blast
    have s1: "same_registry W0 W1"
      using Cons.prems(2) s by (rule same_registry_trans)
    show ?thesis
    proof (cases r)
      case None
      with Inr f Cons.IH [OF Cons.prems(1) s1] show ?thesis by simp
    next
      case (Some d)
      from f Some have "GUID d = GuidStr (entry_identity E k name)"
        by (auto simp: entry_identity_def dest: from_registry_key_GUID)
      moreover from n Cons.prems(1) obtain u where "uuid_parse E (entry_identity E k name) = Some u"
        by (auto simp: catalog_wellformed_def)
      ultimately have "uuid_UUID E (GUID d) = Inr (UUID u)"
        by (simp add: uuid_UUID_def)
      with Inr f Some Cons.IH [OF Cons.prems(1) s1] show ?thesis by simp
    qed
  qed
qed

lemma resolve_returns:
  assumes "VSVersion self = Some v" and "v \<noteq> []"
    and "OpenKey E W (dirname E (regkey_name_of v)) = Inr h"
    and "\<not> reg_fault E (OpCreateKey (regkey_name_of v))"
    and "catalog_wellformed E W (regkey_name_of v)"
  shows "\<exists>d W'. resolve E W self = (Inr d, W')"
proof -
  let ?k = "regkey_name_of v"
  obtain W1 where c: "CreateKey E W ?k = (Inr ?k, W1)"
    using assms(4) by (simp add: CreateKey_def)
  have "catalog_wellformed E W1 ?k"
    using assms(5) CreateKey_subkeys [OF c] by (simp add: catalog_wellformed_def)
  from resolve_loop_total [OF this same_registry_refl]
  obtain r W' where l: "resolve_loop E W1 ?k self [0..<length (subkeys W1 ?k)] = (r, W')"
    and "r = Inl WindowsError \<or> (\<exists>d. r = Inr d)"
    by blast
  then show ?thesis
    using assms(1,2,3) c
    by (auto simp: resolve_def resolve_enumerate_def QueryInfoKey_def is_WindowsError_def)
qed

lemma from_python_installation_present:
  assumes "exists E (abspath E (join E (abspath E directory) [''python.exe'']))"
  shows "\<exists>ver arch self.
           PTVSInterpreter_import E W
             ((installation_args E (abspath E directory) kwargs)
                \<lparr>kw_Version := ver, kw_Architecture := arch\<rparr>)
             = (self, W\<lparr>uuid_clock := Suc (uuid_clock W)\<rparr>)
         \<and> from_python_installation E W directory kwargs =
             (case resolve E (W\<lparr>uuid_clock := Suc (uuid_clock W)\<rparr>) self of
                (Inl e, W2) \<Rightarrow> (Inl e, W2)
              | (Inr interpreter', W2) \<Rightarrow> (Inr (Some interpreter'), W2))"
proof -
  let ?root = "abspath E directory"
  let ?python = "abspath E (join E ?root [''python.exe''])"
  let ?args = "installation_args E ?root kwargs"
  obtain ver arch where p: "probe_args E ?python ?args
      = Inr (?args\<lparr>kw_Version := ver, kw_Architecture := arch\<rparr>)"
    using probe_args_returns by blast
  let ?args' = "?args\<lparr>kw_Version := ver, kw_Architecture := arch\<rparr>"
  let ?self = "fst (PTVSInterpreter_import E W ?args')"
  have i: "PTVSInterpreter_import E W ?args' = (?self, W\<lparr>uuid_clock := Suc (uuid_clock W)\<rparr>)"
    by (rule import_result)
  have "from_python_installation E W directory kwargs =
             (case resolve E (W\<lparr>uuid_clock := Suc (uuid_clock W)\<rparr>) ?self of
                (Inl e, W2) \<Rightarrow> (Inl e, W2)
              | (Inr interpreter', W2) \<Rightarrow> (Inr (Some interpreter'), W2))"
    using assms p
    by (simp add: from_python_installation_def Let_def import_world split_beta)
  with i show ?thesis by blast
qed

lemma installation_args_fields:
  "kw_Path (installation_args E root kwargs) = Some root"
  "kw_InterpreterPath (installation_args E root kwargs) = Some ''python.exe''"
  "kw_Description (installation_args E root kwargs)
     = setdefault (kw_Description kwargs) (basename E root)"
  "kw_InterpreterAbsPath (installation_args E root kwargs) = kw_InterpreterAbsPath kwargs"
  "kw_VSVersion (installation_args E root kwargs) = kw_VSVersion kwargs"
  by (simp_all add: installation_args_def Let_def)

lemma resolve_without_version:
  "\<not> truthy (VSVersion self) \<Longrightarrow> resolve E W self = (Inl resolve_no_version, W)"
  by (auto simp: resolve_def truthy_def split: option.splits)

lemma resolve_without_catalog:
  "VSVersion self = Some v \<Longrightarrow> v \<noteq> [] \<Longrightarrow> dirname E (regkey_name_of v) \<notin> set (reg_keys W)
   \<Longrightarrow> resolve E W self = (Inl (resolve_not_installed E v), W)"
  by (simp add: resolve_def OpenKey_def is_WindowsError_def)


lemma from_section_iterator_used_up:
  assumes "py3 E" and "cfg_contains cfg section" and "section_paths cfg section \<noteq> []"
    and "from_section E W cfg section kwargs = (Inr seq, W')"
  shows "seq = PyIter []"
  using assms
  by (auto simp: from_section_def section_paths_def Let_def describe_all_def builtin_filter_def
        split: if_splits prod.splits sum.splits)

lemma entry_descriptor_GUID:
  assumes "entry_descriptor E W k name = Some d"
  shows "GUID d = GuidStr (entry_identity E k name)"
proof -
  obtain r W1 where f: "from_registry_key E W (k @ [bslash] @ name) = (Inr r, W1)"
    using from_registry_key_returns by blast
  with assms have "r = Some d" by (simp add: entry_descriptor_def)
  with f show ?thesis
    using from_registry_key_GUID [of E W "k @ [bslash] @ name" d W1]
    by (simp add: entry_identity_def)
qed

lemma resolve_first_match:
  assumes "VSVersion self = Some v" and "v \<noteq> []"
    and "OpenKey E W (dirname E (regkey_name_of v)) = Inr h"
    and "CreateKey E W (regkey_name_of v) = (Inr k, W1)"
    and "\<not> reg_fault E (OpQueryInfoKey k)" and "i < length (subkeys W1 k)"
    and "\<forall>j<i. passes E W1 k self j" and "\<not> reg_fault E (OpEnumKey k i)"
    and "entry_descriptor E W1 k (subkeys W1 k ! i) = Some d"
    and "lower (InterpreterAbsPath d) = lower (InterpreterAbsPath self)"
  shows "fst (resolve E W self) =
           (case uuid_parse E (entry_identity E k (subkeys W1 k ! i)) of
              None \<Rightarrow> Inl (ValueError ''badly formed hexadecimal UUID string'')
            | Some n \<Rightarrow> Inr (self\<lparr>GUID := UUID n, BaseInterpreter := UUID n\<rparr>))"
proof -
  from assms(7) have "\<forall>j\<in>set [0..<i]. passes E W1 k self j" by simp
  then obtain W' where l: "resolve_loop E W1 k self ([0..<i] @ i # [Suc i..<length (subkeys W1 k)])
      = (case uuid_UUID E (GUID d) of
           Inl e \<Rightarrow> Inl e
         | Inr g \<Rightarrow> Inr (self\<lparr>GUID := g, BaseInterpreter := g\<rparr>), W')"
    using resolve_loop_match [OF same_registry_refl, of "[0..<i]" E W1 k self i d] assms(6,8,9,10)
    by auto
  have g: "GUID d = GuidStr (entry_identity E k (subkeys W1 k ! i))"
    using assms(9) by (rule entry_descriptor_GUID)
  show ?thesis
    using l upt_split_at [OF assms(6)]
    by (simp add: resolve_unfold [OF assms(1-5)] g uuid_UUID_def is_WindowsError_def
          split: option.splits)
qed

lemma environment_from_base_Some:
  assumes "from_python_installation E W b kwargs = (Inr (Some base), W1)"
  shows "\<exists>d. environment_from_base E W root python kwargs (Bound (Some b))
               = (Inr (Some d), W1\<lparr>uuid_clock := Suc (uuid_clock W1)\<rparr>)
           \<and> BaseInterpreter d = GUID base"
proof -
  let ?args = "environment_args E root kwargs base"
  obtain ver arch where p: "probe_args E python ?args
      = Inr (?args\<lparr>kw_Version := ver, kw_Architecture := arch\<rparr>)"
    using probe_args_returns by blast
  let ?args' = "?args\<lparr>kw_Version := ver, kw_Architecture := arch\<rparr>"
  obtain d where i: "PTVSInterpreter_import E W1 ?args'
      = (d, W1\<lparr>uuid_clock := Suc (uuid_clock W1)\<rparr>)"
    using import_result [of E W1 ?args'] by blast
  have "kw_BaseInterpreter ?args' = Some (GUID base)"
    by (simp add: environment_args_def Let_def)
  with import_fields [OF i] have "BaseInterpreter d = GUID base"
    by (simp add: dict_get_def)
  moreover have "environment_from_base E W root python kwargs (Bound (Some b))
               = (Inr (Some d), W1\<lparr>uuid_clock := Suc (uuid_clock W1)\<rparr>)"
    using assms p i by (simp add: environment_from_base_def)
  ultimately show ?thesis by blast
qed






section \<open>Properties\<close>

text \<open>
  C8. Neither probe ever raises: for every environment and interpreter path the result
  is a returned value. It is \<open>None\<close> when launching or talking to the child process
  fails, and when decoding its output fails; otherwise it is the child's decoded
  standard output without its trailing whitespace.
\<close>

theorem probes_never_raise:
  "(\<exists>r. python_architecture E p = Inr r) \<and> (\<exists>r. python_version E p = Inr r)
   \<and> (\<forall>e. popen_communicate E [p, ''-c'', architecture_script] = Inl e
           \<longrightarrow> python_architecture E p = Inr None)
   \<and> (\<forall>e. popen_communicate E [p, ''-c'', version_script] = Inl e
           \<longrightarrow> python_version E p = Inr None)
   \<and> (\<forall>out err text. popen_communicate E [p, ''-c'', architecture_script] = Inr (out, err)
           \<and> decode_utf8 E out = Inr text
           \<longrightarrow> python_architecture E p = Inr (Some (rstrip text)))
   \<and> (\<forall>out err text. popen_communicate E [p, ''-c'', version_script] = Inr (out, err)
           \<and> decode_utf8 E out = Inr text
           \<longrightarrow> python_version E p = Inr (Some (rstrip text)))"
  by (auto simp: python_architecture_def python_version_def except_BaseException_def
        probe_body_def split: sum.splits prod.splits)

theorem probes_never_raise_witness:
  "popen_communicate ex_env [win ''C:/P/python.exe'', ''-c'', architecture_script]
     = Inr (''x64'' @ [CHR 0x0D, CHR 0x0A], [])
   \<and> decode_utf8 ex_env (''x64'' @ [CHR 0x0D, CHR 0x0A]) = Inr (''x64'' @ [CHR 0x0D, CHR 0x0A])
   \<and> python_architecture ex_env (win ''C:/P/python.exe'') = Inr (Some ''x64'')
   \<and> popen_communicate ex_env [win ''C:/P/python.exe'', ''-c'', version_script]
     = Inr (''2.7'' @ [CHR 0xA0, CHR 0x0A], [])
   \<and> decode_utf8 ex_env (''2.7'' @ [CHR 0xA0, CHR 0x0A]) = Inr (''2.7'' @ [CHR 0xA0, CHR 0x0A])
   \<and> python_version ex_env (win ''C:/P/python.exe'') = Inr (Some ''2.7'')
   \<and> popen_communicate ex_env [win ''C:/V/Scripts/python.exe'', ''-c'', version_script]
     = Inl (OtherError 0)
   \<and> python_version ex_env (win ''C:/V/Scripts/python.exe'') = Inr None"
proof -
  have a: "popen_communicate ex_env [win ''C:/P/python.exe'', ''-c'', architecture_script]
     = Inr (''x64'' @ [CHR 0x0D, CHR 0x0A], [])"
    by code_simp
  have b: "decode_utf8 ex_env (''x64'' @ [CHR 0x0D, CHR 0x0A]) = Inr (''x64'' @ [CHR 0x0D, CHR 0x0A])"
    by (simp add: ex_env_def)
  have a': "popen_communicate ex_env [win ''C:/P/python.exe'', ''-c'', version_script]
     = Inr (''2.7'' @ [CHR 0xA0, CHR 0x0A], [])"
    by code_simp
  have b': "decode_utf8 ex_env (''2.7'' @ [CHR 0xA0, CHR 0x0A]) = Inr (''2.7'' @ [CHR 0xA0, CHR 0x0A])"
    by (simp add: ex_env_def)
  have c: "popen_communicate ex_env [win ''C:/V/Scripts/python.exe'', ''-c'', version_script]
     = Inl (OtherError 0)"
    by code_simp
  have r: "rstrip (''x64'' @ [CHR 0x0D, CHR 0x0A]) = ''x64''"
    "rstrip (''2.7'' @ [CHR 0xA0, CHR 0x0A]) = ''2.7''"
    by code_simp+
  from probes_never_raise [of ex_env "win ''C:/P/python.exe''"] a b r(1)
  have "python_architecture ex_env (win ''C:/P/python.exe'') = Inr (Some ''x64'')"
    by metis
  moreover from probes_never_raise [of ex_env "win ''C:/P/python.exe''"] a' b' r(2)
  have "python_version ex_env (win ''C:/P/python.exe'') = Inr (Some ''2.7'')"
    by metis
  moreover from probes_never_raise [of ex_env "win ''C:/V/Scripts/python.exe''"] c
  have "python_version ex_env (win ''C:/V/Scripts/python.exe'') = Inr None"
    by metis
  ultimately show ?thesis using a b a' b' c by blast
qed

text \<open>
  C3. Reconciliation and registration check the same two preconditions and fail in the
  same two ways: when \<^verbatim>\<open>VSVersion\<close> is unset (or otherwise false) both raise the
  \<^verbatim>\<open>ValueError\<close> for an invalid version, and when it is set but the key of the host
  tool for that version is not in the registry both raise the \<^verbatim>\<open>ValueError\<close> that says
  the tool is not installed. The world is left as it was.
\<close>

theorem catalog_preconditions:
  "(\<not> truthy (VSVersion self)
      \<longrightarrow> resolve E W self = (Inl resolve_no_version, W)
        \<and> register E W self = (Inl register_no_version, W))
   \<and> (\<forall>v. VSVersion self = Some v \<and> v \<noteq> []
          \<and> dirname E (regkey_name_of v) \<notin> set (reg_keys W)
      \<longrightarrow> resolve E W self = (Inl (resolve_not_installed E v), W)
        \<and> register E W self = (Inl (register_not_installed E v), W))"
  by (auto simp: resolve_def register_def truthy_def OpenKey_def is_WindowsError_def
        split: option.splits)

theorem catalog_preconditions_witness:
  "\<not> truthy (VSVersion (ex_self\<lparr>VSVersion := None\<rparr>))
   \<and> resolve ex_env ex_world (ex_self\<lparr>VSVersion := None\<rparr>) = (Inl resolve_no_version, ex_world)
   \<and> register ex_env ex_world (ex_self\<lparr>VSVersion := None\<rparr>)
       = (Inl register_no_version, ex_world)
   \<and> VSVersion (ex_self\<lparr>VSVersion := Some ''15.0''\<rparr>) = Some ''15.0''
   \<and> dirname ex_env (regkey_name_of ''15.0'') \<notin> set (reg_keys ex_world)
   \<and> resolve ex_env ex_world (ex_self\<lparr>VSVersion := Some ''15.0''\<rparr>)
       = (Inl (resolve_not_installed ex_env ''15.0''), ex_world)
   \<and> register ex_env ex_world (ex_self\<lparr>VSVersion := Some ''15.0''\<rparr>)
       = (Inl (register_not_installed ex_env ''15.0''), ex_world)"
proof -
  have a: "\<not> truthy (VSVersion (ex_self\<lparr>VSVersion := None\<rparr>))"
    by (simp add: truthy_def)
  have b: "dirname ex_env (regkey_name_of ''15.0'') \<notin> set (reg_keys ex_world)"
    by code_simp
  from catalog_preconditions [of "ex_self\<lparr>VSVersion := None\<rparr>" ex_env ex_world] a
    catalog_preconditions [of "ex_self\<lparr>VSVersion := Some ''15.0''\<rparr>" ex_env ex_world] b
  show ?thesis by simp
qed

text \<open>
  C4, as amended. With the preconditions met, \<^verbatim>\<open>resolve\<close> first opens or creates the
  catalog key, and a \<^verbatim>\<open>WindowsError\<close> raised there goes to the caller. With the key
  opened it walks the entries in order. At the first entry whose console-interpreter path
  equals the descriptor's up to case it stops, and nothing is asked of the entries after
  it: when \<^verbatim>\<open>uuid.UUID\<close> accepts the entry's identity, both \<^verbatim>\<open>GUID\<close> and
  \<^verbatim>\<open>BaseInterpreter\<close> are set to it; when the identity is badly formed, the \<^verbatim>\<open>ValueError\<close>
  of \<^verbatim>\<open>uuid.UUID\<close> is raised. When no entry matches the descriptor is returned as it was.
  A \<^verbatim>\<open>WindowsError\<close> from \<^verbatim>\<open>QueryInfoKey\<close> or from \<^verbatim>\<open>EnumKey\<close> before a match is
  swallowed: the descriptor is returned unchanged and nothing is raised.
\<close>

theorem resolve_adopts_first_match:
  assumes "VSVersion self = Some v" and "v \<noteq> []"
    and "OpenKey E W (dirname E (regkey_name_of v)) = Inr h"
    and "k = regkey_name_of v"
  shows "(reg_fault E (OpCreateKey k) \<longrightarrow> resolve E W self = (Inl WindowsError, W))
       \<and> (\<forall>W1. CreateKey E W k = (Inr k, W1) \<longrightarrow>
            (\<forall>i d n. \<not> reg_fault E (OpQueryInfoKey k) \<and> i < length (subkeys W1 k)
                \<and> (\<forall>j<i. passes E W1 k self j) \<and> \<not> reg_fault E (OpEnumKey k i)
                \<and> entry_descriptor E W1 k (subkeys W1 k ! i) = Some d
                \<and> lower (InterpreterAbsPath d) = lower (InterpreterAbsPath self)
                \<and> uuid_parse E (entry_identity E k (subkeys W1 k ! i)) = Some n
              \<longrightarrow> fst (resolve E W self) = Inr (self\<lparr>GUID := UUID n, BaseInterpreter := UUID n\<rparr>))
          \<and> (\<forall>i d. \<not> reg_fault E (OpQueryInfoKey k) \<and> i < length (subkeys W1 k)
                \<and> (\<forall>j<i. passes E W1 k self j) \<and> \<not> reg_fault E (OpEnumKey k i)
                \<and> entry_descriptor E W1 k (subkeys W1 k ! i) = Some d
                \<and> lower (InterpreterAbsPath d) = lower (InterpreterAbsPath self)
                \<and> uuid_parse E (entry_identity E k (subkeys W1 k ! i)) = None
              \<longrightarrow> fst (resolve E W self)
                    = Inl (ValueError ''badly formed hexadecimal UUID string''))
          \<and> (\<not> reg_fault E (OpQueryInfoKey k)
                \<and> (\<forall>j<length (subkeys W1 k). passes E W1 k self j)
              \<longrightarrow> fst (resolve E W self) = Inr self)
          \<and> (reg_fault E (OpQueryInfoKey k) \<longrightarrow> fst (resolve E W self) = Inr self)
          \<and> (\<forall>i. \<not> reg_fault E (OpQueryInfoKey k) \<and> i < length (subkeys W1 k)
                \<and> (\<forall>j<i. passes E W1 k self j) \<and> reg_fault E (OpEnumKey k i)
              \<longrightarrow> fst (resolve E W self) = Inr self))"
proof (intro conjI allI impI)
  assume "reg_fault E (OpCreateKey k)"
  then show "resolve E W self = (Inl WindowsError, W)"
    using assms by (simp add: resolve_def CreateKey_def)
next
  fix W1 i d n
  assume c: "CreateKey E W k = (Inr k, W1)"
    and a: "\<not> reg_fault E (OpQueryInfoKey k) \<and> i < length (subkeys W1 k)
                \<and> (\<forall>j<i. passes E W1 k self j) \<and> \<not> reg_fault E (OpEnumKey k i)
                \<and> entry_descriptor E W1 k (subkeys W1 k ! i) = Some d
                \<and> lower (InterpreterAbsPath d) = lower (InterpreterAbsPath self)
                \<and> uuid_parse E (entry_identity E k (subkeys W1 k ! i)) = Some n"
  from c assms(4) have c': "CreateKey E W (regkey_name_of v) = (Inr k, W1)" by simp
  from a resolve_first_match [OF assms(1-3) c', where i=i and d=d]
  show "fst (resolve E W self) = Inr (self\<lparr>GUID := UUID n, BaseInterpreter := UUID n\<rparr>)"
    by simp
next
  fix W1 i d
  assume c: "CreateKey E W k = (Inr k, W1)"
    and a: "\<not> reg_fault E (OpQueryInfoKey k) \<and> i < length (subkeys W1 k)
                \<and> (\<forall>j<i. passes E W1 k self j) \<and> \<not> reg_fault E (OpEnumKey k i)
                \<and> entry_descriptor E W1 k (subkeys W1 k ! i) = Some d
                \<and> lower (InterpreterAbsPath d) = lower (InterpreterAbsPath self)
                \<and> uuid_parse E (entry_identity E k (subkeys W1 k ! i)) = None"
  from c assms(4) have c': "CreateKey E W (regkey_name_of v) = (Inr k, W1)" by simp
  from a resolve_first_match [OF assms(1-3) c', where i=i and d=d]
  show "fst (resolve E W self) = Inl (ValueError ''badly formed hexadecimal UUID string'')"
    by simp
next
  fix W1
  assume c: "CreateKey E W k = (Inr k, W1)"
    and a: "\<not> reg_fault E (OpQueryInfoKey k)
     \<and> (\<forall>j<length (subkeys W1 k). passes E W1 k self j)"
  from c assms(4) have c': "CreateKey E W (regkey_name_of v) = (Inr k, W1)" by simp
  from a have "\<forall>j\<in>set [0..<length (subkeys W1 k)]. passes E W1 k self j" by simp
  then obtain W' where "resolve_loop E W1 k self [0..<length (subkeys W1 k)] = (Inr self, W')"
    using resolve_loop_no_match [OF same_registry_refl] by blast
  then show "fst (resolve E W self) = Inr self"
    using a by (simp add: resolve_unfold [OF assms(1-3) c'])
next
  fix W1
  assume c: "CreateKey E W k = (Inr k, W1)" and "reg_fault E (OpQueryInfoKey k)"
  then show "fst (resolve E W self) = Inr self"
    using assms
    by (simp add: resolve_def resolve_enumerate_def QueryInfoKey_def is_WindowsError_def)
next
  fix W1 i
  assume c: "CreateKey E W k = (Inr k, W1)"
    and a: "\<not> reg_fault E (OpQueryInfoKey k) \<and> i < length (subkeys W1 k)
            \<and> (\<forall>j<i. passes E W1 k self j) \<and> reg_fault E (OpEnumKey k i)"
  from c assms(4) have c': "CreateKey E W (regkey_name_of v) = (Inr k, W1)" by simp
  from a have "\<forall>j\<in>set [0..<i]. passes E W1 k self j" by simp
  then obtain W' where "resolve_loop E W1 k self ([0..<i] @ i # [Suc i..<length (subkeys W1 k)])
      = (Inl WindowsError, W')"
    using resolve_loop_fault [OF same_registry_refl, of "[0..<i]" E W1 k self i] a by blast
  then show "fst (resolve E W self) = Inr self"
    using a upt_split_at [of i "length (subkeys W1 k)"]
    by (simp add: resolve_unfold [OF assms(1-3) c'] is_WindowsError_def)
qed

theorem resolve_adopts_first_match_witness:
  "VSVersion ex_self = Some ''14.0''
   \<and> OpenKey ex_env ex_world (dirname ex_env ex_catalog) = Inr (dirname ex_env ex_catalog)
   \<and> CreateKey ex_env ex_world ex_catalog = (Inr ex_catalog, ex_opened)
   \<and> subkeys ex_opened ex_catalog = [''{ab}'']
   \<and> entry_matches ex_env ex_opened ex_catalog ex_self ''{ab}''
   \<and> uuid_parse ex_env (entry_identity ex_env ex_catalog ''{ab}'') = Some 171
   \<and> fst (resolve ex_env ex_world ex_self)
       = Inr (ex_self\<lparr>GUID := UUID 171, BaseInterpreter := UUID 171\<rparr>)
   \<and> passes ex_env ex_opened ex_catalog ex_other 0
   \<and> fst (resolve ex_env ex_world ex_other) = Inr ex_other
   \<and> CreateKey ex_env ex_broken ex_catalog = (Inr ex_catalog, ex_reopened)
   \<and> subkeys ex_reopened ex_catalog = [''{zz}'']
   \<and> entry_matches ex_env ex_reopened ex_catalog ex_self ''{zz}''
   \<and> uuid_parse ex_env (entry_identity ex_env ex_catalog ''{zz}'') = None
   \<and> fst (resolve ex_env ex_broken ex_self)
       = Inl (ValueError ''badly formed hexadecimal UUID string'')
   \<and> reg_fault ex_locked (OpCreateKey ex_catalog)
   \<and> resolve ex_locked ex_world ex_self = (Inl WindowsError, ex_world)"
proof -
  have v: "VSVersion ex_self = Some ''14.0''" "VSVersion ex_other = Some ''14.0''"
    by code_simp+
  have ne: "''14.0'' \<noteq> []" by simp
  have k: "ex_catalog = regkey_name_of ''14.0''" by (simp add: ex_catalog_def)
  have o: "OpenKey ex_env ex_world (dirname ex_env (regkey_name_of ''14.0''))
      = Inr (dirname ex_env ex_catalog)"
    "OpenKey ex_env ex_broken (dirname ex_env (regkey_name_of ''14.0''))
      = Inr (dirname ex_env ex_catalog)"
    "OpenKey ex_locked ex_world (dirname ex_locked (regkey_name_of ''14.0''))
      = Inr (dirname ex_env ex_catalog)"
    by code_simp+
  have "fst (CreateKey ex_env ex_world ex_catalog) = Inr ex_catalog"
    "fst (CreateKey ex_env ex_broken ex_catalog) = Inr ex_catalog"
    by code_simp+
  then have c: "CreateKey ex_env ex_world ex_catalog = (Inr ex_catalog, ex_opened)"
    "CreateKey ex_env ex_broken ex_catalog = (Inr ex_catalog, ex_reopened)"
    by (simp_all add: ex_opened_def ex_reopened_def prod_eq_iff)
  have q: "\<not> reg_fault ex_env (OpQueryInfoKey ex_catalog)"
    "\<not> reg_fault ex_env (OpEnumKey ex_catalog 0)"
    by (simp_all add: ex_env_def)
  have f: "reg_fault ex_locked (OpCreateKey ex_catalog)"
    by (simp add: ex_locked_def)
  have s: "subkeys ex_opened ex_catalog = [''{ab}'']"
    "subkeys ex_reopened ex_catalog = [''{zz}'']"
    by code_simp+
  have m: "entry_matches ex_env ex_opened ex_catalog ex_self ''{ab}''"
    "entry_matches ex_env ex_reopened ex_catalog ex_self ''{zz}''"
    by code_simp+
  have u: "uuid_parse ex_env (entry_identity ex_env ex_catalog ''{ab}'') = Some 171"
    "uuid_parse ex_env (entry_identity ex_env ex_catalog ''{zz}'') = None"
    by code_simp+
  have p: "passes ex_env ex_opened ex_catalog ex_other 0" by code_simp
  obtain d where d: "entry_descriptor ex_env ex_opened ex_catalog ''{ab}'' = Some d"
    and l: "lower (InterpreterAbsPath d) = lower (InterpreterAbsPath ex_self)"
    using m(1) by (auto simp: entry_matches_def split: option.splits)
  obtain d' where d': "entry_descriptor ex_env ex_reopened ex_catalog ''{zz}'' = Some d'"
    and l': "lower (InterpreterAbsPath d') = lower (InterpreterAbsPath ex_self)"
    using m(2) by (auto simp: entry_matches_def split: option.splits)
  have "fst (resolve ex_env ex_world ex_self)
       = Inr (ex_self\<lparr>GUID := UUID 171, BaseInterpreter := UUID 171\<rparr>)"
    using resolve_adopts_first_match [OF v(1) ne o(1) k] c(1) q s(1) d l u(1) by simp
  moreover have "fst (resolve ex_env ex_world ex_other) = Inr ex_other"
    using resolve_adopts_first_match [OF v(2) ne o(1) k] c(1) q s(1) p by simp
  moreover have "fst (resolve ex_env ex_broken ex_self)
       = Inl (ValueError ''badly formed hexadecimal UUID string'')"
    using resolve_adopts_first_match [OF v(1) ne o(2) k] c(2) q s(2) d' l' u(2) by simp
  moreover have "resolve ex_locked ex_world ex_self = (Inl WindowsError, ex_world)"
    using resolve_adopts_first_match [OF v(1) ne o(3) k] f by blast
  ultimately show ?thesis
    using v o(1) c s m u p f by (simp add: ex_catalog_def)
qed

text \<open>
  The claim as first stated, that the first matching entry's identity is adopted, fails
  on a catalog whose matching entry is named \<^verbatim>\<open>{zz}\<close>: the preconditions hold, the path
  matches, and \<^verbatim>\<open>resolve\<close> raises.
\<close>

theorem resolve_adopts_first_match_counterexample:
  "VSVersion ex_self = Some ''14.0''
   \<and> OpenKey ex_env ex_broken (dirname ex_env ex_catalog) = Inr (dirname ex_env ex_catalog)
   \<and> subkeys (snd (CreateKey ex_env ex_broken ex_catalog)) ex_catalog = [''{zz}'']
   \<and> entry_matches ex_env (snd (CreateKey ex_env ex_broken ex_catalog)) ex_catalog ex_self ''{zz}''
   \<and> fst (resolve ex_env ex_broken ex_self)
       = Inl (ValueError ''badly formed hexadecimal UUID string'')"
  by code_simp

text \<open>
  C5. With the preconditions met, \<^verbatim>\<open>register\<close> never raises: it returns a boolean. The
  entry key is the catalog key of the version, a backslash, and the descriptor's identity
  in braces. When neither creating the key nor any of the six writes fails it returns
  \<^verbatim>\<open>True\<close>, the key exists, and its six values are the descriptor's architecture,
  description, absolute interpreter path, version, absolute windowed interpreter path and
  search-path variable name. When creating the key or one of the writes fails it returns
  \<^verbatim>\<open>False\<close>.
\<close>

theorem register_writes_entry:
  assumes "VSVersion self = Some v" and "v \<noteq> []"
    and "OpenKey E W (dirname E (regkey_name_of v)) = Inr h"
    and "key = interpreter_regkey_name E v (GUID self)"
  shows "key = regkey_name_of v @ [bslash] @ ''{'' @ vsg_lower E (GUID self) @ ''}''
       \<and> (\<exists>b W'. register E W self = (Inr b, W'))
       \<and> (\<not> reg_fault E (OpCreateKey key)
            \<and> (\<forall>n\<in>set registry_fields. \<not> reg_fault E (OpSetValueEx key n))
          \<longrightarrow> (\<exists>W'. register E W self = (Inr True, W')
                 \<and> key \<in> set (reg_keys W')
                 \<and> reg_values W' key ''Architecture'' = Some (Architecture self)
                 \<and> reg_values W' key ''Description'' = Some (Description self)
                 \<and> reg_values W' key ''InterpreterPath'' = Some (InterpreterAbsPath self)
                 \<and> reg_values W' key ''Version'' = Some (Version self)
                 \<and> reg_values W' key ''WindowsInterpreterPath''
                     = Some (WindowsInterpreterAbsPath self)
                 \<and> reg_values W' key ''PathEnvironmentVariable''
                     = Some (PathEnvironmentVariable self)))
       \<and> (reg_fault E (OpCreateKey key)
            \<or> (\<exists>n\<in>set registry_fields. reg_fault E (OpSetValueEx key n))
          \<longrightarrow> (\<exists>W'. register E W self = (Inr False, W')))"
proof (intro conjI impI)
  show "key = regkey_name_of v @ [bslash] @ ''{'' @ vsg_lower E (GUID self) @ ''}''"
    by (simp add: assms(4) interpreter_regkey_name_def)
  have names: "fst ` set (register_values self) = set registry_fields"
    by (simp add: register_values_def registry_fields_def)
  have unfold: "register E W self =
      (case register_write E W key self of
         (Inl e, W1) \<Rightarrow> (if is_WindowsError e then (Inr False, W1) else (Inl e, W1))
       | (Inr u, W1) \<Rightarrow> (Inr True, W1))"
    using assms by (simp add: register_def)
  have raises: "e = WindowsError" if "register_write E W key self = (Inl e, W1)" for e W1
    using that
    by (auto simp: register_write_def split: prod.splits sum.splits
          dest: CreateKey_raises write_values_raises)
  show "\<exists>b W'. register E W self = (Inr b, W')"
    unfolding unfold
    by (auto simp: is_WindowsError_def split: prod.splits sum.splits dest: raises)
  {
    assume ok: "\<not> reg_fault E (OpCreateKey key)
            \<and> (\<forall>n\<in>set registry_fields. \<not> reg_fault E (OpSetValueEx key n))"
    obtain W1 where c: "CreateKey E W key = (Inr key, W1)"
      using ok by (simp add: CreateKey_def)
    from CreateKey_creates [OF c] have k1: "key \<in> set (reg_keys W1)" by simp
    from ok names have "\<forall>n\<in>fst ` set (register_values self). \<not> reg_fault E (OpSetValueEx key n)"
      by simp
    from write_values_ok [OF this, of W1] obtain W' where
      w: "write_values E W1 key (register_values self) = (Inr (), W')"
      and k: "reg_keys W' = reg_keys W1"
      and m: "reg_values W' key = reg_values W1 key ++ map_of (rev (register_values self))"
      by auto
    have "register E W self = (Inr True, W')"
      unfolding unfold by (simp add: register_write_def c w)
    moreover have "key \<in> set (reg_keys W')" using k k1 by simp
    ultimately show "\<exists>W'. register E W self = (Inr True, W')
                 \<and> key \<in> set (reg_keys W')
                 \<and> reg_values W' key ''Architecture'' = Some (Architecture self)
                 \<and> reg_values W' key ''Description'' = Some (Description self)
                 \<and> reg_values W' key ''InterpreterPath'' = Some (InterpreterAbsPath self)
                 \<and> reg_values W' key ''Version'' = Some (Version self)
                 \<and> reg_values W' key ''WindowsInterpreterPath''
                     = Some (WindowsInterpreterAbsPath self)
                 \<and> reg_values W' key ''PathEnvironmentVariable''
                     = Some (PathEnvironmentVariable self)"
      using m by (simp add: register_values_def)
  }
  {
    assume bad: "reg_fault E (OpCreateKey key)
            \<or> (\<exists>n\<in>set registry_fields. reg_fault E (OpSetValueEx key n))"
    show "\<exists>W'. register E W self = (Inr False, W')"
    proof (cases "reg_fault E (OpCreateKey key)")
      case True
      then show ?thesis
        unfolding unfold by (simp add: register_write_def CreateKey_def is_WindowsError_def)
    next
      case False
      obtain W1 where c: "CreateKey E W key = (Inr key, W1)"
        using False by (simp add: CreateKey_def)
      from False bad names
      have "\<exists>n\<in>fst ` set (register_values self). reg_fault E (OpSetValueEx key n)"
        by simp
      from write_values_fault [OF this, of W1] obtain W' where
        "write_values E W1 key (register_values self) = (Inl WindowsError, W')" by auto
      then show ?thesis
        unfolding unfold by (simp add: register_write_def c is_WindowsError_def)
    qed
  }
qed

theorem register_writes_entry_witness:
  "VSVersion ex_self = Some ''14.0''
   \<and> OpenKey ex_env ex_world (dirname ex_env ex_catalog) = Inr (dirname ex_env ex_catalog)
   \<and> ex_key = ex_catalog @ [bslash] @ ''{cd}''
   \<and> fst (register ex_env ex_world ex_self) = Inr True
   \<and> map (reg_values (snd (register ex_env ex_world ex_self)) ex_key) registry_fields
       = [Some ''x64'', Some ''P'', Some (win ''C:/P/python.exe''), Some ''2.7'',
          Some (win ''C:/P''), Some ''PYTHONPATH'']
   \<and> reg_fault ex_faulty (OpSetValueEx ex_key ''Version'')
   \<and> fst (register ex_faulty ex_world ex_self) = Inr False"
proof -
  have v: "VSVersion ex_self = Some ''14.0''" by code_simp
  have ne: "''14.0'' \<noteq> []" by simp
  have o: "OpenKey ex_env ex_world (dirname ex_env (regkey_name_of ''14.0''))
      = Inr (dirname ex_env ex_catalog)"
    by code_simp
  have o': "OpenKey ex_faulty ex_world (dirname ex_faulty (regkey_name_of ''14.0''))
      = Inr (dirname ex_env ex_catalog)"
    by code_simp
  have k: "ex_key = interpreter_regkey_name ex_env ''14.0'' (GUID ex_self)"
    "ex_key = interpreter_regkey_name ex_faulty ''14.0'' (GUID ex_self)"
    by (simp_all add: ex_key_def ex_faulty_def interpreter_regkey_name_def)
  have kk: "ex_key = ex_catalog @ [bslash] @ ''{cd}''" by code_simp
  have nf: "\<not> reg_fault ex_env (OpCreateKey ex_key)"
    "\<forall>n\<in>set registry_fields. \<not> reg_fault ex_env (OpSetValueEx ex_key n)"
    by (simp_all add: ex_env_def)
  have f: "reg_fault ex_faulty (OpSetValueEx ex_key ''Version'')"
    "''Version'' \<in> set registry_fields"
    by (simp_all add: ex_faulty_def registry_fields_def)
  have vals: "[Some (Architecture ex_self), Some (Description ex_self),
      Some (InterpreterAbsPath ex_self), Some (Version ex_self),
      Some (WindowsInterpreterAbsPath ex_self), Some (PathEnvironmentVariable ex_self)]
      = [Some ''x64'', Some ''P'', Some (win ''C:/P/python.exe''), Some ''2.7'',
          Some (win ''C:/P''), Some ''PYTHONPATH'']"
    by code_simp
  from register_writes_entry [OF v ne o k(1)] nf
  obtain W' where r: "register ex_env ex_world ex_self = (Inr True, W')"
    and w: "map (reg_values W' ex_key) registry_fields
       = [Some (Architecture ex_self), Some (Description ex_self),
      Some (InterpreterAbsPath ex_self), Some (Version ex_self),
      Some (WindowsInterpreterAbsPath ex_self), Some (PathEnvironmentVariable ex_self)]"
    by (auto simp: registry_fields_def)
  from register_writes_entry [OF v ne o' k(2)] f
  obtain W'' where r': "register ex_faulty ex_world ex_self = (Inr False, W'')"
    by blast
  from r w r' vals v o kk f(1) show ?thesis
    by (simp add: ex_catalog_def)
qed

text \<open>
  C10. A descriptor built from a dictionary with neither \<^verbatim>\<open>WindowsInterpreterPath\<close> nor
  \<^verbatim>\<open>WindowsInterpreterAbsPath\<close> has the empty string as its windowed interpreter path, and
  its absolute windowed interpreter path is \<^verbatim>\<open>abspath(join(Path, ''))\<close> (the empty string is
  not an absolute path), which is the installation root itself wherever joining the
  empty string and normalising gives the root back. A successful \<^verbatim>\<open>register\<close> stores that
  directory path as the value \<^verbatim>\<open>WindowsInterpreterPath\<close> of the entry.
\<close>

theorem windowed_path_defaults_to_root:
  assumes "kw_WindowsInterpreterPath args = None"
    and "kw_WindowsInterpreterAbsPath args = None"
    and "\<not> isabs E []"
    and "PTVSInterpreter_import E W args = (self, W1)"
  shows "WindowsInterpreterPath self = []
       \<and> Path self = dict_get (kw_Path args) []
       \<and> WindowsInterpreterAbsPath self = abspath E (join E (Path self) [[]])
       \<and> (abspath E (join E (Path self) [[]]) = Path self
            \<longrightarrow> WindowsInterpreterAbsPath self = Path self)
       \<and> (\<forall>v W2 W3. VSVersion self = Some v \<and> register E W2 self = (Inr True, W3)
            \<longrightarrow> reg_values W3 (interpreter_regkey_name E v (GUID self))
                  ''WindowsInterpreterPath'' = Some (abspath E (join E (Path self) [[]])))"
proof -
  have f: "WindowsInterpreterPath self = []" "Path self = dict_get (kw_Path args) []"
    "WindowsInterpreterAbsPath self = abspath E (join E (Path self) [[]])"
    using assms
    by (auto simp: PTVSInterpreter_import_def uuid1_def Let_def dict_get_def derive_abs_def)
  have "reg_values W3 (interpreter_regkey_name E v (GUID self)) ''WindowsInterpreterPath''
          = Some (WindowsInterpreterAbsPath self)"
    if v: "VSVersion self = Some v" and r: "register E W2 self = (Inr True, W3)" for v W2 W3
  proof -
    show ?thesis
      using register_True_values [OF r v] by (simp add: register_values_def)
  qed
  with f show ?thesis by auto
qed

theorem windowed_path_defaults_to_root_witness:
  "kw_WindowsInterpreterPath ex_args = None
   \<and> kw_WindowsInterpreterAbsPath ex_args = None
   \<and> \<not> isabs ex_env []
   \<and> WindowsInterpreterPath ex_self = []
   \<and> Path ex_self = win ''C:/P''
   \<and> abspath ex_env (join ex_env (Path ex_self) [[]]) = Path ex_self
   \<and> WindowsInterpreterAbsPath ex_self = win ''C:/P''
   \<and> fst (register ex_env ex_world ex_self) = Inr True
   \<and> reg_values (snd (register ex_env ex_world ex_self)) ex_key ''WindowsInterpreterPath''
       = Some (win ''C:/P'')"
proof -
  have a: "kw_WindowsInterpreterPath ex_args = None" "kw_WindowsInterpreterAbsPath ex_args = None"
    by (simp_all add: ex_args_def kw14_def no_kwargs_def)
  have b: "\<not> isabs ex_env []" by (simp add: ex_env_def ex_isabs_def)
  have c: "PTVSInterpreter_import ex_env ex_world ex_args
      = (ex_self, snd (PTVSInterpreter_import ex_env ex_world ex_args))"
    by (simp add: ex_self_def)
  have p: "dict_get (kw_Path ex_args) [] = win ''C:/P''" by code_simp
  have l: "abspath ex_env (join ex_env (win ''C:/P'') [[]]) = win ''C:/P''" by code_simp
  have v: "VSVersion ex_self = Some ''14.0''" by code_simp
  have r: "fst (register ex_env ex_world ex_self) = Inr True" by code_simp
  then have r': "register ex_env ex_world ex_self
      = (Inr True, snd (register ex_env ex_world ex_self))"
    by (simp add: prod_eq_iff)
  from windowed_path_defaults_to_root [OF a b c] p l v r'
  have "WindowsInterpreterPath ex_self = []" "Path ex_self = win ''C:/P''"
    "WindowsInterpreterAbsPath ex_self = win ''C:/P''"
    "reg_values (snd (register ex_env ex_world ex_self)) ex_key ''WindowsInterpreterPath''
       = Some (win ''C:/P'')"
    unfolding ex_key_def by metis+
  with a b l r show ?thesis by simp
qed




text \<open>
  C2, as amended. When \<^verbatim>\<open>python.exe\<close> is not under the root, \<^verbatim>\<open>from_python_installation\<close>
  returns no descriptor. When it is there, the descriptor is built and reconciled:
  whatever the call returns is a descriptor with the root as its path, whose absolute
  interpreter path is the \<^verbatim>\<open>python.exe\<close> that was found (no override given) and whose
  description defaults to the last segment of the root; the call raises the error of
  \<^verbatim>\<open>resolve\<close> when \<^verbatim>\<open>VSVersion\<close> is unset and when the catalog root of the version is
  missing; and it does return a descriptor when the version is set, the catalog root and
  the catalog key can be opened and every catalog entry is named by a well-formed
  identity.
\<close>

theorem installation_outcomes:
  assumes "root = abspath E directory" and "python = abspath E (join E root [''python.exe''])"
  shows "(\<not> exists E python
          \<longrightarrow> from_python_installation E W directory kwargs = (Inr None, W))
       \<and> (exists E python
          \<longrightarrow> (\<forall>r W'. from_python_installation E W directory kwargs = (Inr r, W')
                \<longrightarrow> (\<exists>d. r = Some d \<and> Path d = root \<and> InterpreterPath d = ''python.exe''
                       \<and> (kw_InterpreterAbsPath kwargs = None \<and> \<not> isabs E ''python.exe''
                            \<longrightarrow> InterpreterAbsPath d = python)
                       \<and> (kw_Description kwargs = None
                            \<longrightarrow> Description d = basename E root))))
       \<and> (exists E python \<and> \<not> truthy (kw_VSVersion kwargs)
          \<longrightarrow> (\<exists>W'. from_python_installation E W directory kwargs
                       = (Inl resolve_no_version, W')))
       \<and> (\<forall>v. exists E python \<and> kw_VSVersion kwargs = Some v \<and> v \<noteq> []
              \<and> dirname E (regkey_name_of v) \<notin> set (reg_keys W)
          \<longrightarrow> (\<exists>W'. from_python_installation E W directory kwargs
                       = (Inl (resolve_not_installed E v), W')))
       \<and> (\<forall>v. exists E python \<and> kw_VSVersion kwargs = Some v \<and> v \<noteq> []
              \<and> dirname E (regkey_name_of v) \<in> set (reg_keys W)
              \<and> \<not> reg_fault E (OpOpenKey (dirname E (regkey_name_of v)))
              \<and> \<not> reg_fault E (OpCreateKey (regkey_name_of v))
              \<and> catalog_wellformed E W (regkey_name_of v)
          \<longrightarrow> (\<exists>d W'. from_python_installation E W directory kwargs = (Inr (Some d), W')))"
proof (intro conjI allI impI)
  assume "\<not> exists E python"
  with assms show "from_python_installation E W directory kwargs = (Inr None, W)"
    by (simp add: from_python_installation_def Let_def)
next
  fix r W'
  assume e: "exists E python"
    and ret: "from_python_installation E W directory kwargs = (Inr r, W')"
  let ?W1 = "W\<lparr>uuid_clock := Suc (uuid_clock W)\<rparr>"
  from e assms obtain ver arch self where
    i: "PTVSInterpreter_import E W
          ((installation_args E root kwargs)\<lparr>kw_Version := ver, kw_Architecture := arch\<rparr>)
          = (self, ?W1)"
    and u: "from_python_installation E W directory kwargs =
             (case resolve E ?W1 self of
                (Inl e, W2) \<Rightarrow> (Inl e, W2)
              | (Inr interpreter', W2) \<Rightarrow> (Inr (Some interpreter'), W2))"
    using from_python_installation_present [of E directory W kwargs] by auto
  from ret u obtain d where d: "r = Some d" and res: "resolve E ?W1 self = (Inr d, W')"
    by (auto split: prod.splits sum.splits)
  from resolve_result [OF res]
  have same: "Path d = Path self" "InterpreterPath d = InterpreterPath self"
    "InterpreterAbsPath d = InterpreterAbsPath self" "Description d = Description self"
    by auto
  from import_fields [OF i] installation_args_fields [of E root kwargs]
  have "Path self = root" "InterpreterPath self = ''python.exe''"
    "kw_InterpreterAbsPath kwargs = None \<and> \<not> isabs E ''python.exe''
       \<longrightarrow> InterpreterAbsPath self = python"
    "kw_Description kwargs = None \<longrightarrow> Description self = basename E root"
    by (simp_all add: dict_get_def setdefault_def derive_abs_def assms)
  with same d
  show "\<exists>d. r = Some d \<and> Path d = root \<and> InterpreterPath d = ''python.exe''
                       \<and> (kw_InterpreterAbsPath kwargs = None \<and> \<not> isabs E ''python.exe''
                            \<longrightarrow> InterpreterAbsPath d = python)
                       \<and> (kw_Description kwargs = None
                            \<longrightarrow> Description d = basename E root)"
    by simp
next
  assume a: "exists E python \<and> \<not> truthy (kw_VSVersion kwargs)"
  let ?W1 = "W\<lparr>uuid_clock := Suc (uuid_clock W)\<rparr>"
  from a assms obtain ver arch self where
    i: "PTVSInterpreter_import E W
          ((installation_args E root kwargs)\<lparr>kw_Version := ver, kw_Architecture := arch\<rparr>)
          = (self, ?W1)"
    and u: "from_python_installation E W directory kwargs =
             (case resolve E ?W1 self of
                (Inl e, W2) \<Rightarrow> (Inl e, W2)
              | (Inr interpreter', W2) \<Rightarrow> (Inr (Some interpreter'), W2))"
    using from_python_installation_present [of E directory W kwargs] by auto
  from import_fields [OF i] installation_args_fields [of E root kwargs] a
  have "\<not> truthy (VSVersion self)" by simp
  then have "resolve E ?W1 self = (Inl resolve_no_version, ?W1)"
    by (rule resolve_without_version)
  with u show "\<exists>W'. from_python_installation E W directory kwargs
                       = (Inl resolve_no_version, W')"
    by simp
next
  fix v
  assume a: "exists E python \<and> kw_VSVersion kwargs = Some v \<and> v \<noteq> []
              \<and> dirname E (regkey_name_of v) \<notin> set (reg_keys W)"
  let ?W1 = "W\<lparr>uuid_clock := Suc (uuid_clock W)\<rparr>"
  from a assms obtain ver arch self where
    i: "PTVSInterpreter_import E W
          ((installation_args E root kwargs)\<lparr>kw_Version := ver, kw_Architecture := arch\<rparr>)
          = (self, ?W1)"
    and u: "from_python_installation E W directory kwargs =
             (case resolve E ?W1 self of
                (Inl e, W2) \<Rightarrow> (Inl e, W2)
              | (Inr interpreter', W2) \<Rightarrow> (Inr (Some interpreter'), W2))"
    using from_python_installation_present [of E directory W kwargs] by auto
  from import_fields [OF i] installation_args_fields [of E root kwargs] a
  have "VSVersion self = Some v \<and> v \<noteq> [] \<and> dirname E (regkey_name_of v) \<notin> set (reg_keys ?W1)"
    by simp
  then have "resolve E ?W1 self = (Inl (resolve_not_installed E v), ?W1)"
    by (simp add: resolve_without_catalog)
  with u show "\<exists>W'. from_python_installation E W directory kwargs
                       = (Inl (resolve_not_installed E v), W')"
    by simp
next
  fix v
  assume a: "exists E python \<and> kw_VSVersion kwargs = Some v \<and> v \<noteq> []
              \<and> dirname E (regkey_name_of v) \<in> set (reg_keys W)
              \<and> \<not> reg_fault E (OpOpenKey (dirname E (regkey_name_of v)))
              \<and> \<not> reg_fault E (OpCreateKey (regkey_name_of v))
              \<and> catalog_wellformed E W (regkey_name_of v)"
  let ?W1 = "W\<lparr>uuid_clock := Suc (uuid_clock W)\<rparr>"
  from a assms obtain ver arch self where
    i: "PTVSInterpreter_import E W
          ((installation_args E root kwargs)\<lparr>kw_Version := ver, kw_Architecture := arch\<rparr>)
          = (self, ?W1)"
    and u: "from_python_installation E W directory kwargs =
             (case resolve E ?W1 self of
                (Inl e, W2) \<Rightarrow> (Inl e, W2)
              | (Inr interpreter', W2) \<Rightarrow> (Inr (Some interpreter'), W2))"
    using from_python_installation_present [of E directory W kwargs] by auto
  from import_fields [OF i] installation_args_fields [of E root kwargs] a
  have v: "VSVersion self = Some v" "v \<noteq> []" by simp_all
  have o: "OpenKey E ?W1 (dirname E (regkey_name_of v)) = Inr (dirname E (regkey_name_of v))"
    using a by (simp add: OpenKey_def)
  have w: "catalog_wellformed E ?W1 (regkey_name_of v)"
    using a by (simp add: catalog_wellformed_def subkeys_def)
  from a have c: "\<not> reg_fault E (OpCreateKey (regkey_name_of v))" by simp
  from resolve_returns [OF v o c w] obtain d W' where "resolve E ?W1 self = (Inr d, W')"
    by blast
  with u show "\<exists>d W'. from_python_installation E W directory kwargs = (Inr (Some d), W')"
    by simp
qed

theorem installation_outcomes_witness:
  "exists ex_env (win ''C:/P/python.exe'')
   \<and> fst (from_python_installation ex_env ex_world (win ''C:/P'') kw14) = Inr ex_installed
   \<and> map_option InterpreterAbsPath ex_installed = Some (win ''C:/P/python.exe'')
   \<and> map_option Description ex_installed = Some ''P''
   \<and> \<not> exists ex_env (win ''C:/Z/python.exe'')
   \<and> from_python_installation ex_env ex_world (win ''C:/Z'') kw14 = (Inr None, ex_world)"
proof -
  have P: "win ''C:/P'' = abspath ex_env (win ''C:/P'')"
    "win ''C:/P/python.exe'' = abspath ex_env (join ex_env (win ''C:/P'') [''python.exe''])"
    by code_simp+
  have Z: "win ''C:/Z'' = abspath ex_env (win ''C:/Z'')"
    "win ''C:/Z/python.exe'' = abspath ex_env (join ex_env (win ''C:/Z'') [''python.exe''])"
    by code_simp+
  have e: "exists ex_env (win ''C:/P/python.exe'')" "\<not> exists ex_env (win ''C:/Z/python.exe'')"
    by code_simp+
  have k: "kw_InterpreterAbsPath kw14 = None" "\<not> isabs ex_env ''python.exe''"
    "kw_Description kw14 = None" "basename ex_env (win ''C:/P'') = ''P''"
    by code_simp+
  have r0: "fst (from_python_installation ex_env ex_world (win ''C:/P'') kw14) = Inr ex_installed"
    by code_simp
  then have r: "from_python_installation ex_env ex_world (win ''C:/P'') kw14
      = (Inr ex_installed, snd (from_python_installation ex_env ex_world (win ''C:/P'') kw14))"
    by (simp add: prod_eq_iff)
  from installation_outcomes [OF P, of ex_world kw14] e(1) r k
  have "map_option InterpreterAbsPath ex_installed = Some (win ''C:/P/python.exe'')
      \<and> map_option Description ex_installed = Some ''P''"
    by fastforce
  moreover from installation_outcomes [OF Z, of ex_world kw14] e(2)
  have "from_python_installation ex_env ex_world (win ''C:/Z'') kw14 = (Inr None, ex_world)"
    by blast
  ultimately show ?thesis using e r0 by simp
qed

text \<open>
  The claim as first stated, that a descriptor or none are the only two outcomes, fails
  on the example machine: \<^verbatim>\<open>C:\P\python.exe\<close> exists, and without \<^verbatim>\<open>VSVersion\<close> the call
  raises.
\<close>

theorem installation_outcomes_counterexample:
  "exists ex_env (abspath ex_env (join ex_env (abspath ex_env (win ''C:/P'')) [''python.exe'']))
   \<and> fst (from_python_installation ex_env ex_world (win ''C:/P'') no_kwargs)
       = Inl resolve_no_version"
  by code_simp

text \<open>
  C6. For an environment directory with \<^verbatim>\<open>Scripts\python.exe\<close>: when both
  \<^verbatim>\<open>Lib\orig-prefix.txt\<close> and \<^verbatim>\<open>pyvenv.cfg\<close> exist and \<^verbatim>\<open>pyvenv.cfg\<close> has a \<^verbatim>\<open>home\<close> key, the
  base directory is the value of that key (of its last line, if there are several) and
  not the first line of the legacy file, and the outcome of \<^verbatim>\<open>from_virtual_environment\<close>
  follows the outcome of \<^verbatim>\<open>from_python_installation\<close> on that directory: its error is
  raised, its none gives none, and its descriptor gives an environment descriptor whose
  base identity is that descriptor's. When neither file exists no descriptor is produced.
\<close>

theorem modern_file_takes_precedence:
  assumes "root = abspath E directory"
    and "python = abspath E (join E root [''Scripts'', ''python.exe''])"
    and "exists E python"
  shows "(\<forall>ls cfg home. exists E (origprefix_of E root) \<and> exists E (pyvenvcfg_of E root)
            \<and> file_lines E (origprefix_of E root) = Some ls
            \<and> file_lines E (pyvenvcfg_of E root) = Some cfg
            \<and> home_values cfg \<noteq> [] \<and> home = last (home_values cfg)
          \<longrightarrow> locate_basedir E root = Inr (Bound (Some home))
            \<and> (\<forall>e W1. from_python_installation E W home kwargs = (Inl e, W1)
                 \<longrightarrow> from_virtual_environment E W directory kwargs = (Inl e, W1))
            \<and> (\<forall>W1. from_python_installation E W home kwargs = (Inr None, W1)
                 \<longrightarrow> from_virtual_environment E W directory kwargs = (Inr None, W1))
            \<and> (\<forall>base W1. from_python_installation E W home kwargs = (Inr (Some base), W1)
                 \<longrightarrow> (\<exists>d. from_virtual_environment E W directory kwargs
                            = (Inr (Some d), W1\<lparr>uuid_clock := Suc (uuid_clock W1)\<rparr>)
                        \<and> BaseInterpreter d = GUID base)))
       \<and> (\<not> exists E (origprefix_of E root) \<and> \<not> exists E (pyvenvcfg_of E root)
          \<longrightarrow> from_virtual_environment E W directory kwargs = (Inr None, W))"
proof (intro conjI allI impI)
  assume "\<not> exists E (origprefix_of E root) \<and> \<not> exists E (pyvenvcfg_of E root)"
  with assms show "from_virtual_environment E W directory kwargs = (Inr None, W)"
    by (simp add: from_virtual_environment_def Let_def)
next
  fix ls cfg home
  assume a: "exists E (origprefix_of E root) \<and> exists E (pyvenvcfg_of E root)
            \<and> file_lines E (origprefix_of E root) = Some ls
            \<and> file_lines E (pyvenvcfg_of E root) = Some cfg
            \<and> home_values cfg \<noteq> [] \<and> home = last (home_values cfg)"
  then show l: "locate_basedir E root = Inr (Bound (Some home))"
    by (simp add: locate_basedir_def scan_pyvenvcfg_home)
  from a assms l have u: "from_virtual_environment E W directory kwargs
      = environment_from_base E W root python kwargs (Bound (Some home))"
    by (simp add: from_virtual_environment_def Let_def)
  {
    fix e W1
    assume "from_python_installation E W home kwargs = (Inl e, W1)"
    then show "from_virtual_environment E W directory kwargs = (Inl e, W1)"
      unfolding u by (simp add: environment_from_base_def)
  }
  {
    fix W1
    assume "from_python_installation E W home kwargs = (Inr None, W1)"
    then show "from_virtual_environment E W directory kwargs = (Inr None, W1)"
      unfolding u by (simp add: environment_from_base_def)
  }
  {
    fix base W1
    assume "from_python_installation E W home kwargs = (Inr (Some base), W1)"
    then show "\<exists>d. from_virtual_environment E W directory kwargs
                            = (Inr (Some d), W1\<lparr>uuid_clock := Suc (uuid_clock W1)\<rparr>)
                        \<and> BaseInterpreter d = GUID base"
      unfolding u by (rule environment_from_base_Some)
  }
qed

theorem modern_file_takes_precedence_witness:
  "exists ex_env (win ''C:/V/Scripts/python.exe'')
   \<and> exists ex_env (origprefix_of ex_env (win ''C:/V''))
   \<and> exists ex_env (pyvenvcfg_of ex_env (win ''C:/V''))
   \<and> file_lines ex_env (origprefix_of ex_env (win ''C:/V'')) = Some [win ''C:/Q'' @ [CHR 0x0A]]
   \<and> file_lines ex_env (pyvenvcfg_of ex_env (win ''C:/V''))
       = Some [''Home = '' @ win ''C:/P'' @ [CHR 0xA0, CHR 0x0A]]
   \<and> home_values [''Home = '' @ win ''C:/P'' @ [CHR 0xA0, CHR 0x0A]] = [win ''C:/P'']
   \<and> locate_basedir ex_env (win ''C:/V'') = Inr (Bound (Some (win ''C:/P'')))
   \<and> fst (from_python_installation ex_env ex_world (win ''C:/P'') kw14) = Inr ex_installed
   \<and> map_option GUID ex_installed = Some (UUID 171)
   \<and> fst (from_virtual_environment ex_env ex_world (win ''C:/V'') kw14) = Inr ex_environment
   \<and> map_option BaseInterpreter ex_environment = Some (UUID 171)
   \<and> exists ex_env (win ''C:/N/Scripts/python.exe'')
   \<and> \<not> exists ex_env (origprefix_of ex_env (win ''C:/N''))
   \<and> \<not> exists ex_env (pyvenvcfg_of ex_env (win ''C:/N''))
   \<and> from_virtual_environment ex_env ex_world (win ''C:/N'') kw14 = (Inr None, ex_world)"
proof -
  have V: "win ''C:/V'' = abspath ex_env (win ''C:/V'')"
    "win ''C:/V/Scripts/python.exe''
       = abspath ex_env (join ex_env (win ''C:/V'') [''Scripts'', ''python.exe''])"
    "exists ex_env (win ''C:/V/Scripts/python.exe'')"
    by code_simp+
  have N: "win ''C:/N'' = abspath ex_env (win ''C:/N'')"
    "win ''C:/N/Scripts/python.exe''
       = abspath ex_env (join ex_env (win ''C:/N'') [''Scripts'', ''python.exe''])"
    "exists ex_env (win ''C:/N/Scripts/python.exe'')"
    by code_simp+
  have f: "exists ex_env (origprefix_of ex_env (win ''C:/V''))"
    "exists ex_env (pyvenvcfg_of ex_env (win ''C:/V''))"
    "file_lines ex_env (origprefix_of ex_env (win ''C:/V'')) = Some [win ''C:/Q'' @ [CHR 0x0A]]"
    "file_lines ex_env (pyvenvcfg_of ex_env (win ''C:/V''))
       = Some [''Home = '' @ win ''C:/P'' @ [CHR 0xA0, CHR 0x0A]]"
    by code_simp+
  have h: "home_values [''Home = '' @ win ''C:/P'' @ [CHR 0xA0, CHR 0x0A]] = [win ''C:/P'']"
    by code_simp
  have n: "\<not> exists ex_env (origprefix_of ex_env (win ''C:/N''))"
    "\<not> exists ex_env (pyvenvcfg_of ex_env (win ''C:/N''))"
    by code_simp+
  have b: "fst (from_python_installation ex_env ex_world (win ''C:/P'') kw14) = Inr ex_installed"
    "map_option GUID ex_installed = Some (UUID 171)"
    "fst (from_virtual_environment ex_env ex_world (win ''C:/V'') kw14) = Inr ex_environment"
    by code_simp+
  from b(2) obtain base where base: "ex_installed = Some base" "GUID base = UUID 171"
    by (cases ex_installed) auto
  from b(1) base have r: "from_python_installation ex_env ex_world (win ''C:/P'') kw14
      = (Inr (Some base), snd (from_python_installation ex_env ex_world (win ''C:/P'') kw14))"
    by (simp add: prod_eq_iff)
  have hv: "home_values [''Home = '' @ win ''C:/P'' @ [CHR 0xA0, CHR 0x0A]] \<noteq> []"
    "win ''C:/P'' = last (home_values [''Home = '' @ win ''C:/P'' @ [CHR 0xA0, CHR 0x0A]])"
    using h by simp_all
  from modern_file_takes_precedence [OF V, of ex_world kw14]
  have step: "exists ex_env (origprefix_of ex_env (win ''C:/V''))
       \<and> exists ex_env (pyvenvcfg_of ex_env (win ''C:/V''))
       \<and> file_lines ex_env (origprefix_of ex_env (win ''C:/V'')) = Some [win ''C:/Q'' @ [CHR 0x0A]]
       \<and> file_lines ex_env (pyvenvcfg_of ex_env (win ''C:/V''))
           = Some [''Home = '' @ win ''C:/P'' @ [CHR 0xA0, CHR 0x0A]]
       \<and> home_values [''Home = '' @ win ''C:/P'' @ [CHR 0xA0, CHR 0x0A]] \<noteq> []
       \<and> win ''C:/P'' = last (home_values [''Home = '' @ win ''C:/P'' @ [CHR 0xA0, CHR 0x0A]])
     \<longrightarrow> locate_basedir ex_env (win ''C:/V'') = Inr (Bound (Some (win ''C:/P'')))
       \<and> (\<forall>e W1. from_python_installation ex_env ex_world (win ''C:/P'') kw14 = (Inl e, W1)
            \<longrightarrow> from_virtual_environment ex_env ex_world (win ''C:/V'') kw14 = (Inl e, W1))
       \<and> (\<forall>W1. from_python_installation ex_env ex_world (win ''C:/P'') kw14 = (Inr None, W1)
            \<longrightarrow> from_virtual_environment ex_env ex_world (win ''C:/V'') kw14 = (Inr None, W1))
       \<and> (\<forall>base W1. from_python_installation ex_env ex_world (win ''C:/P'') kw14
                = (Inr (Some base), W1)
            \<longrightarrow> (\<exists>d. from_virtual_environment ex_env ex_world (win ''C:/V'') kw14
                       = (Inr (Some d), W1\<lparr>uuid_clock := Suc (uuid_clock W1)\<rparr>)
                   \<and> BaseInterpreter d = GUID base))"
    by blast
  from step f hv have res: "locate_basedir ex_env (win ''C:/V'') = Inr (Bound (Some (win ''C:/P'')))"
    and all: "\<forall>base W1. from_python_installation ex_env ex_world (win ''C:/P'') kw14
                = (Inr (Some base), W1)
            \<longrightarrow> (\<exists>d. from_virtual_environment ex_env ex_world (win ''C:/V'') kw14
                       = (Inr (Some d), W1\<lparr>uuid_clock := Suc (uuid_clock W1)\<rparr>)
                   \<and> BaseInterpreter d = GUID base)"
    by blast+
  from all [rule_format, OF r] obtain d where
    fv: "fst (from_virtual_environment ex_env ex_world (win ''C:/V'') kw14) = Inr (Some d)"
    and bi: "BaseInterpreter d = GUID base"
    by auto
  from fv b(3) have ed: "ex_environment = Some d" by simp
  have be: "map_option BaseInterpreter ex_environment = Some (UUID 171)"
    using bi base(2) unfolding ed by simp
  from modern_file_takes_precedence [OF N, of ex_world kw14] n
  have "from_virtual_environment ex_env ex_world (win ''C:/N'') kw14 = (Inr None, ex_world)"
    by blast
  with res be show ?thesis using V(3) N(3) f h n b by simp
qed

text \<open>
  C7. For an environment whose base directory was located: when resolving the base
  directory as an installation returns no descriptor, \<^verbatim>\<open>from_virtual_environment\<close> returns
  none either; when it returns a descriptor, \<^verbatim>\<open>from_virtual_environment\<close> returns one whose
  \<^verbatim>\<open>BaseInterpreter\<close> is the identity of the base descriptor and whose description, unless
  overridden, is the name of the environment directory followed by the base description
  in parentheses.
\<close>

theorem environment_follows_base:
  assumes "root = abspath E directory"
    and "exists E (abspath E (join E root [''Scripts'', ''python.exe'']))"
    and "exists E (origprefix_of E root) \<or> exists E (pyvenvcfg_of E root)"
    and "locate_basedir E root = Inr (Bound (Some b))"
  shows "(\<forall>W1. from_python_installation E W b kwargs = (Inr None, W1)
          \<longrightarrow> from_virtual_environment E W directory kwargs = (Inr None, W1))
       \<and> (\<forall>base W1. from_python_installation E W b kwargs = (Inr (Some base), W1)
          \<longrightarrow> (\<exists>d W2. from_virtual_environment E W directory kwargs = (Inr (Some d), W2)
                 \<and> Path d = root
                 \<and> InterpreterPath d = join E ''Scripts'' [''python.exe'']
                 \<and> BaseInterpreter d = GUID base
                 \<and> (kw_Description kwargs = None
                      \<longrightarrow> Description d = basename E root @ '' ('' @ Description base @ '')'')))"
proof (intro conjI allI impI)
  fix W1
  assume "from_python_installation E W b kwargs = (Inr None, W1)"
  with assms show "from_virtual_environment E W directory kwargs = (Inr None, W1)"
    by (auto simp: from_virtual_environment_def environment_from_base_def Let_def)
next
  fix base W1
  assume b: "from_python_installation E W b kwargs = (Inr (Some base), W1)"
  let ?python = "abspath E (join E root [''Scripts'', ''python.exe''])"
  let ?args = "environment_args E root kwargs base"
  obtain ver arch where p: "probe_args E ?python ?args
      = Inr (?args\<lparr>kw_Version := ver, kw_Architecture := arch\<rparr>)"
    using probe_args_returns by blast
  let ?args' = "?args\<lparr>kw_Version := ver, kw_Architecture := arch\<rparr>"
  obtain d W2 where i: "PTVSInterpreter_import E W1 ?args' = (d, W2)"
    by (cases "PTVSInterpreter_import E W1 ?args'")
  have r: "from_virtual_environment E W directory kwargs = (Inr (Some d), W2)"
    using assms b p i
    by (auto simp: from_virtual_environment_def environment_from_base_def Let_def)
  have a: "kw_Path ?args' = Some root"
    "kw_InterpreterPath ?args' = Some (join E ''Scripts'' [''python.exe''])"
    "kw_BaseInterpreter ?args' = Some (GUID base)"
    "kw_Description ?args' = setdefault (kw_Description kwargs)
        (basename E root @ '' ('' @ Description base @ '')'')"
    by (simp_all add: environment_args_def Let_def)
  from import_fields [OF i] a
  have "Path d = root \<and> InterpreterPath d = join E ''Scripts'' [''python.exe'']
      \<and> BaseInterpreter d = GUID base
      \<and> (kw_Description kwargs = None
            \<longrightarrow> Description d = basename E root @ '' ('' @ Description base @ '')'')"
    by (simp add: dict_get_def setdefault_def)
  with r show "\<exists>d W2. from_virtual_environment E W directory kwargs = (Inr (Some d), W2)
                 \<and> Path d = root
                 \<and> InterpreterPath d = join E ''Scripts'' [''python.exe'']
                 \<and> BaseInterpreter d = GUID base
                 \<and> (kw_Description kwargs = None
                      \<longrightarrow> Description d = basename E root @ '' ('' @ Description base @ '')'')"
    by (intro exI [of _ d] exI [of _ W2]) simp
qed

theorem environment_follows_base_witness:
  "exists ex_env (win ''C:/V/Scripts/python.exe'')
   \<and> locate_basedir ex_env (win ''C:/V'') = Inr (Bound (Some (win ''C:/P'')))
   \<and> fst (from_python_installation ex_env ex_world (win ''C:/P'') kw14) = Inr ex_installed
   \<and> map_option GUID ex_installed = Some (UUID 171)
   \<and> map_option Description ex_installed = Some ''P''
   \<and> fst (from_virtual_environment ex_env ex_world (win ''C:/V'') kw14) = Inr ex_environment
   \<and> map_option BaseInterpreter ex_environment = Some (UUID 171)
   \<and> map_option Description ex_environment = Some ''V (P)''
   \<and> locate_basedir ex_env (win ''C:/T'') = Inr (Bound (Some (win ''C:/Q'')))
   \<and> from_python_installation ex_env ex_world (win ''C:/Q'') kw14 = (Inr None, ex_world)
   \<and> from_virtual_environment ex_env ex_world (win ''C:/T'') kw14 = (Inr None, ex_world)"
proof -
  have V: "win ''C:/V'' = abspath ex_env (win ''C:/V'')"
    "exists ex_env (abspath ex_env (join ex_env (win ''C:/V'') [''Scripts'', ''python.exe'']))"
    "exists ex_env (origprefix_of ex_env (win ''C:/V''))
       \<or> exists ex_env (pyvenvcfg_of ex_env (win ''C:/V''))"
    "locate_basedir ex_env (win ''C:/V'') = Inr (Bound (Some (win ''C:/P'')))"
    by code_simp+
  have T: "win ''C:/T'' = abspath ex_env (win ''C:/T'')"
    "exists ex_env (abspath ex_env (join ex_env (win ''C:/T'') [''Scripts'', ''python.exe'']))"
    "exists ex_env (origprefix_of ex_env (win ''C:/T''))
       \<or> exists ex_env (pyvenvcfg_of ex_env (win ''C:/T''))"
    "locate_basedir ex_env (win ''C:/T'') = Inr (Bound (Some (win ''C:/Q'')))"
    by code_simp+
  have e: "exists ex_env (win ''C:/V/Scripts/python.exe'')" by code_simp
  have k: "kw_Description kw14 = None" "basename ex_env (win ''C:/V'') = ''V''"
    by code_simp+
  have b: "fst (from_python_installation ex_env ex_world (win ''C:/P'') kw14) = Inr ex_installed"
    "map_option GUID ex_installed = Some (UUID 171)"
    "map_option Description ex_installed = Some ''P''"
    "fst (from_virtual_environment ex_env ex_world (win ''C:/V'') kw14) = Inr ex_environment"
    by code_simp+
  from b(2) obtain base where base: "ex_installed = Some base" "GUID base = UUID 171"
    by (cases ex_installed) auto
  have bd: "Description base = ''P''" using b(3) unfolding base(1) by simp
  from b(1) base have r: "from_python_installation ex_env ex_world (win ''C:/P'') kw14
      = (Inr (Some base), snd (from_python_installation ex_env ex_world (win ''C:/P'') kw14))"
    by (simp add: prod_eq_iff)
  from environment_follows_base [OF V, of ex_world kw14]
  have step: "\<forall>base W1. from_python_installation ex_env ex_world (win ''C:/P'') kw14
          = (Inr (Some base), W1)
      \<longrightarrow> (\<exists>d W2. from_virtual_environment ex_env ex_world (win ''C:/V'') kw14
                 = (Inr (Some d), W2)
             \<and> Path d = win ''C:/V''
             \<and> InterpreterPath d = join ex_env ''Scripts'' [''python.exe'']
             \<and> BaseInterpreter d = GUID base
             \<and> (kw_Description kw14 = None
                  \<longrightarrow> Description d
                      = basename ex_env (win ''C:/V'') @ '' ('' @ Description base @ '')''))"
    by (rule conjunct2)
  from step [rule_format, OF r] obtain d W2 where
    fv: "from_virtual_environment ex_env ex_world (win ''C:/V'') kw14 = (Inr (Some d), W2)"
    and bi: "BaseInterpreter d = GUID base"
    and de: "kw_Description kw14 = None
       \<longrightarrow> Description d = basename ex_env (win ''C:/V'') @ '' ('' @ Description base @ '')''"
    by auto
  from fv b(4) have ed: "ex_environment = Some d" by simp
  have "map_option BaseInterpreter ex_environment = Some (UUID 171)
      \<and> map_option Description ex_environment = Some ''V (P)''"
    using de k bi base(2) bd unfolding ed by simp
  moreover have q': "from_python_installation ex_env ex_world (win ''C:/Q'') kw14 = (Inr None, ex_world)"
    by (simp add: from_python_installation_def Let_def ex_env_def ex_abspath_def ex_join_def
          win_def bslash_def ex_files_def)
  from environment_follows_base [OF T, of ex_world kw14] q'
  have "from_virtual_environment ex_env ex_world (win ''C:/T'') kw14 = (Inr None, ex_world)"
    by blast
  ultimately show ?thesis using e V(4) T(4) b q' by simp
qed

text \<open>
  C9. For an environment directory with \<^verbatim>\<open>Scripts\python.exe\<close>, without
  \<^verbatim>\<open>Lib\orig-prefix.txt\<close>, and with a \<^verbatim>\<open>pyvenv.cfg\<close> that has no line whose key is \<^verbatim>\<open>home\<close>,
  \<^verbatim>\<open>from_virtual_environment\<close> raises \<^verbatim>\<open>UnboundLocalError\<close>: \<^verbatim>\<open>basedir\<close> is read before
  anything was assigned to it.
\<close>

theorem missing_home_key_is_unbound:
  assumes "root = abspath E directory"
    and "exists E (abspath E (join E root [''Scripts'', ''python.exe'']))"
    and "\<not> exists E (origprefix_of E root)"
    and "exists E (pyvenvcfg_of E root)"
    and "file_lines E (pyvenvcfg_of E root) = Some cfg"
    and "home_values cfg = []"
  shows "from_virtual_environment E W directory kwargs = (Inl UnboundLocalError, W)"
  using assms
  by (simp add: from_virtual_environment_def locate_basedir_def scan_pyvenvcfg_home Let_def
        environment_from_base_def)

theorem missing_home_key_is_unbound_witness:
  "exists ex_env (win ''C:/U/Scripts/python.exe'')
   \<and> \<not> exists ex_env (origprefix_of ex_env (win ''C:/U''))
   \<and> exists ex_env (pyvenvcfg_of ex_env (win ''C:/U''))
   \<and> file_lines ex_env (pyvenvcfg_of ex_env (win ''C:/U'')) = Some [''version = 3.9'' @ [CHR 0x0A]]
   \<and> home_values [''version = 3.9'' @ [CHR 0x0A]] = []
   \<and> from_virtual_environment ex_env ex_world (win ''C:/U'') kw14
       = (Inl UnboundLocalError, ex_world)"
proof -
  have U: "win ''C:/U'' = abspath ex_env (win ''C:/U'')" by code_simp
  have p: "exists ex_env (abspath ex_env (join ex_env (win ''C:/U'') [''Scripts'', ''python.exe'']))"
    "exists ex_env (win ''C:/U/Scripts/python.exe'')"
    by code_simp+
  have f: "\<not> exists ex_env (origprefix_of ex_env (win ''C:/U''))"
    "exists ex_env (pyvenvcfg_of ex_env (win ''C:/U''))"
    "file_lines ex_env (pyvenvcfg_of ex_env (win ''C:/U'')) = Some [''version = 3.9'' @ [CHR 0x0A]]"
    "home_values [''version = 3.9'' @ [CHR 0x0A]] = []"
    by code_simp+
  from missing_home_key_is_unbound [OF U p(1) f, of ex_world kw14] p(2) f
  show ?thesis by simp
qed

end
